theory Spec2Isabelle
  imports Complex_Main "HOL-Library.Sublist"
begin

section \<open>Numbers that may be NaN\<close>

text \<open>
  The pipeline computes on numpy/pandas float64 columns. A value is modelled as an exact
  real or as NaN (\<open>None\<close>): rounding is not modelled, NaN is. Arithmetic with a NaN
  operand is NaN, every comparison with NaN is false, as in numpy.
\<close>

type_synonym float64 = "real option"

definition fadd :: "float64 \<Rightarrow> float64 \<Rightarrow> float64" where
  "fadd a b = (case a of None \<Rightarrow> None | Some x \<Rightarrow> map_option (\<lambda>y. x + y) b)"

definition fsub :: "float64 \<Rightarrow> float64 \<Rightarrow> float64" where
  "fsub a b = (case a of None \<Rightarrow> None | Some x \<Rightarrow> map_option (\<lambda>y. x - y) b)"

definition fabs :: "float64 \<Rightarrow> float64" where
  "fabs a = map_option abs a"

definition fgt :: "float64 \<Rightarrow> real \<Rightarrow> bool" where
  "fgt a c = (case a of None \<Rightarrow> False | Some x \<Rightarrow> x > c)"

definition flt :: "float64 \<Rightarrow> real \<Rightarrow> bool" where
  "flt a c = (case a of None \<Rightarrow> False | Some x \<Rightarrow> x < c)"

definition isnan :: "float64 \<Rightarrow> bool" where
  "isnan a = (a = None)"

text \<open>\<open>Series.clip(lower, upper)\<close>: NaN stays NaN.\<close>

definition clip :: "real \<Rightarrow> real \<Rightarrow> float64 \<Rightarrow> float64" where
  "clip lo hi a = map_option (\<lambda>x. min hi (max lo x)) a"

text \<open>\<open>Series.shift(1)\<close> and \<open>Series.fillna(v)\<close>.\<close>

definition shift1 :: "'a list \<Rightarrow> 'a option list" where
  "shift1 xs = (case xs of [] \<Rightarrow> [] | _ # _ \<Rightarrow> None # map Some (butlast xs))"

definition fillna :: "'a \<Rightarrow> 'a option list \<Rightarrow> 'a list" where
  "fillna d xs = map (\<lambda>x. case x of None \<Rightarrow> d | Some v \<Rightarrow> v) xs"

section \<open>Rows of the data frames\<close>

text \<open>The dictionary returned by \<open>extract_features\<close>.\<close>

record features =
  heart_rate_mean :: float64
  heart_rate_var :: float64
  heart_rate_slope :: float64
  spo2_mean :: float64
  spo2_var :: float64
  spo2_slope :: float64
  bp_systolic_mean :: float64
  bp_systolic_var :: float64
  bp_systolic_slope :: float64
  confidence_mean :: float64

text \<open>
  A row of the frame built by \<open>detect_anomalies\<close> (and by \<open>predict_risk\<close>): the keys
  \<open>timestamp\<close>, \<open>is_anomaly\<close>, \<open>confidence\<close>, \<open>reasons\<close> and then \<open>**feats\<close>.
  The row's \<open>timestamp\<close> key is the field \<open>window_timestamp\<close> here.
\<close>

record anomaly_row = features +
  window_timestamp :: float64
  is_anomaly :: bool
  confidence :: float64
  reasons :: string

text \<open>A row of the frame returned by \<open>calculate_risk_and_alerts\<close>: the columns it adds.\<close>

record risk_row = anomaly_row +
  risk_score :: float64
  sensor_stability :: float64
  final_confidence :: float64
  risk_threshold_breached :: bool
  confidence_acceptable :: bool
  persistent_risk :: bool
  alert_triggered :: bool
  alert_comment :: string

section \<open>risk_logic.py\<close>

text \<open>Lines 14-34: the weighted risk score of one row, with the synergy multiplier.\<close>

definition hr_risk :: "anomaly_row \<Rightarrow> float64" where
  "hr_risk r = map_option (\<lambda>x. x * 0.4)
     (clip 0 1 (map_option (\<lambda>x. (x - 75) / (120 - 75)) (heart_rate_mean r)))"

definition spo2_risk :: "anomaly_row \<Rightarrow> float64" where
  "spo2_risk r = map_option (\<lambda>x. x * 0.4)
     (clip 0 1 (map_option (\<lambda>x. (98 - x) / (98 - 90)) (spo2_mean r)))"

definition bp_risk :: "anomaly_row \<Rightarrow> float64" where
  "bp_risk r = map_option (\<lambda>x. x * 0.2)
     (clip 0 1 (map_option (\<lambda>x. (x - 120) / (160 - 120)) (bp_systolic_mean r)))"

definition critical_synergy :: "anomaly_row \<Rightarrow> bool" where
  "critical_synergy r = (fgt (heart_rate_slope r) 0.02 \<and> flt (spo2_slope r) (- 0.005))"

definition risk_score_col :: "anomaly_row \<Rightarrow> float64" where
  "risk_score_col r =
     (let base = clip 0 1 (fadd (fadd (hr_risk r) (spo2_risk r)) (bp_risk r))
      in clip 0 1 (if critical_synergy r then map_option (\<lambda>x. x * 1.2) base else base))"

text \<open>Lines 38-39: the fused confidence.\<close>

definition sensor_stability_col :: "anomaly_row \<Rightarrow> float64" where
  "sensor_stability_col r =
     map_option (\<lambda>x. 1.0 - x) (clip 0 0.5 (map_option (\<lambda>x. x / 100) (heart_rate_var r)))"

definition final_confidence_col :: "anomaly_row \<Rightarrow> float64" where
  "final_confidence_col r =
     fadd (map_option (\<lambda>x. x * 0.7) (confidence r))
          (map_option (\<lambda>x. x * 0.3) (sensor_stability_col r))"

text \<open>
  Lines 57-64: the explainability comment. \<open>fmt\<close> stands for the float formatting
  \<open>{:.2f}\<close> of Python, a parameter of the model.
\<close>

definition get_alert_comment :: "(float64 \<Rightarrow> string) \<Rightarrow> risk_row \<Rightarrow> string" where
  "get_alert_comment fmt row =
     (if alert_triggered row then
        ''CRITICAL: High risk ('' @ fmt (risk_score row) @ '') with stable sensor (''
          @ fmt (final_confidence row) @ ''). '' @ reasons row
      else if risk_threshold_breached row \<and> \<not> confidence_acceptable row then
        ''SUPPRESSED: High risk ('' @ fmt (risk_score row) @ '') but low confidence (''
          @ fmt (final_confidence row) @ '') due to motion/artifacts.''
      else if risk_threshold_breached row \<and> \<not> persistent_risk row then
        ''WAITING: Risk threshold breached but awaiting trend persistence.''
      else ''Normal status.'')"

text \<open>
  One output row, from the input row and the value of
  \<open>risk_threshold_breached.shift(1).fillna(False)\<close> at its position.
\<close>

definition risk_record ::
  "(float64 \<Rightarrow> string) \<Rightarrow> real \<Rightarrow> real \<Rightarrow> anomaly_row \<Rightarrow> bool \<Rightarrow> risk_row" where
  "risk_record fmt risk_threshold confidence_threshold r prev_breached =
     (let rs = risk_score_col r;
          fc = final_confidence_col r;
          breached = fgt rs risk_threshold;
          acceptable = fgt fc confidence_threshold;
          persistent = (breached \<and> prev_breached);
          row = anomaly_row.extend r
            \<lparr> risk_score = rs, sensor_stability = sensor_stability_col r,
              final_confidence = fc, risk_threshold_breached = breached,
              confidence_acceptable = acceptable, persistent_risk = persistent,
              alert_triggered = (persistent \<and> acceptable), alert_comment = [] \<rparr>
      in row \<lparr> alert_comment := get_alert_comment fmt row \<rparr>)"

text \<open>
  \<open>calculate_risk_and_alerts(anomaly_df, risk_threshold, confidence_threshold)\<close>; the
  defaults of the two thresholds are 0.6 and 0.7. The frame is the list of its rows.
\<close>

definition calculate_risk_and_alerts ::
  "(float64 \<Rightarrow> string) \<Rightarrow> anomaly_row list \<Rightarrow> real \<Rightarrow> real \<Rightarrow> risk_row list" where
  "calculate_risk_and_alerts fmt anomaly_df risk_threshold confidence_threshold =
     (let breached = map (\<lambda>r. fgt (risk_score_col r) risk_threshold) anomaly_df
      in map2 (risk_record fmt risk_threshold confidence_threshold) anomaly_df
           (fillna False (shift1 breached)))"

section \<open>artifact_detection.py\<close>

text \<open>A row of the raw frame, and of the frame \<open>detect_and_clean_artifacts\<close> returns.\<close>

record sample =
  timestamp :: float64
  heart_rate :: float64
  spo2 :: float64
  bp_systolic :: float64
  bp_diastolic :: float64
  vibration :: float64

record cleaned_sample = sample +
  is_motion :: bool
  motion_risk :: real
  hr_artifact :: bool
  spo2_artifact :: bool
  artifact_confidence :: float64

text \<open>
  \<open>Series.rolling(w, center=True)\<close> followed by an aggregate. The window labelled \<open>i\<close>
  covers the positions \<open>i - w div 2 .. i + (w - 1) div 2\<close>; \<open>min_periods\<close> defaults to
  \<open>w\<close>, so the result is NaN where the window leaves the frame or holds a NaN.
\<close>

definition rolling_center :: "nat \<Rightarrow> (real list \<Rightarrow> float64) \<Rightarrow> float64 list \<Rightarrow> float64 list" where
  "rolling_center w agg xs =
     map (\<lambda>i. if w div 2 \<le> i \<and> i + (w - 1) div 2 < length xs
               then (case those (take w (drop (i - w div 2) xs)) of
                       None \<Rightarrow> None | Some vs \<Rightarrow> agg vs)
               else None) [0..<length xs]"

definition agg_max :: "real list \<Rightarrow> float64" where
  "agg_max vs = (case vs of [] \<Rightarrow> None | v # rest \<Rightarrow> Some (fold max rest v))"

definition agg_mean :: "real list \<Rightarrow> float64" where
  "agg_mean vs = (case vs of [] \<Rightarrow> None | _ # _ \<Rightarrow> Some (sum_list vs / real (length vs)))"

text \<open>\<open>Series.diff().abs()\<close>: NaN at position 0.\<close>

definition diff_abs :: "float64 list \<Rightarrow> float64 list" where
  "diff_abs xs =
     map (\<lambda>i. if i = 0 then None else fabs (fsub (xs ! i) (xs ! (i - 1)))) [0..<length xs]"

text \<open>
  \<open>Series.interpolate(method='linear', limit=limit)\<close> of pandas, with its defaults
  \<open>limit_direction='forward'\<close> and \<open>limit_area=None\<close>: positions are equally spaced; a
  NaN is filled when a valid value lies at most \<open>limit\<close> positions before it, with the
  value on the line to the next valid value, or with the last valid value when no valid
  value follows; NaNs before the first valid value stay.
  \<open>next_valid xs\<close> is the number of NaNs before the first valid value of \<open>xs\<close>, and that
  value. The state of \<open>interp_from\<close> is the last valid value seen and the number of NaNs
  since.
\<close>

fun next_valid :: "float64 list \<Rightarrow> (nat \<times> real) option" where
  "next_valid [] = None"
| "next_valid (Some y # xs) = Some (0, y)"
| "next_valid (None # xs) = map_option (\<lambda>(d, y). (Suc d, y)) (next_valid xs)"

fun interp_from :: "nat \<Rightarrow> (real \<times> nat) option \<Rightarrow> float64 list \<Rightarrow> float64 list" where
  "interp_from limit st [] = []"
| "interp_from limit st (Some y # xs) = Some y # interp_from limit (Some (y, 0)) xs"
| "interp_from limit None (None # xs) = None # interp_from limit None xs"
| "interp_from limit (Some (y0, k)) (None # xs) =
     (if k < limit
      then Some (case next_valid xs of
                   None \<Rightarrow> y0
                 | Some (d, y1) \<Rightarrow> y0 + (y1 - y0) / real (Suc k + Suc d) * real (Suc k))
      else None) # interp_from limit (Some (y0, Suc k)) xs"

definition interpolate :: "nat \<Rightarrow> float64 list \<Rightarrow> float64 list" where
  "interpolate limit xs = interp_from limit None xs"

text \<open>
  \<open>detect_and_clean_artifacts(df, motion_threshold)\<close>; the default threshold is 0.6. Each
  column the function assigns is a list over the positions of the frame:
  \<open>is_motion\<close>, \<open>motion_risk\<close> (the rolling maximum, NaN filled with 0), the two artifact
  flags, the heart-rate and SpO2 columns with the flagged values replaced by NaN (before
  the interpolation), and \<open>artifact_confidence\<close>.
\<close>

definition is_motion_col :: "sample list \<Rightarrow> real \<Rightarrow> bool list" where
  "is_motion_col df motion_threshold = map (\<lambda>s. fgt (vibration s) motion_threshold) df"

definition motion_risk_col :: "sample list \<Rightarrow> real \<Rightarrow> real list" where
  "motion_risk_col df motion_threshold =
     fillna 0 (rolling_center 5 agg_max
                 (map (\<lambda>b. Some (if b then 1 else 0)) (is_motion_col df motion_threshold)))"

definition spo2_artifact_col :: "sample list \<Rightarrow> real \<Rightarrow> bool list" where
  "spo2_artifact_col df motion_threshold =
     (let motion_risk = motion_risk_col df motion_threshold;
          spo2_diff = diff_abs (map spo2 df)
      in map (\<lambda>i. (motion_risk ! i > 0.5 \<and> fgt (spo2_diff ! i) 2.0)
                  \<or> (motion_risk ! i > 0.8 \<and> flt (spo2 (df ! i)) 85)) [0..<length df])"

definition hr_artifact_col :: "sample list \<Rightarrow> real \<Rightarrow> bool list" where
  "hr_artifact_col df motion_threshold =
     (let motion_risk = motion_risk_col df motion_threshold;
          hr_diff = diff_abs (map heart_rate df)
      in map (\<lambda>i. motion_risk ! i > 0.5 \<and> fgt (hr_diff ! i) 5.0) [0..<length df])"

definition heart_rate_suppressed :: "sample list \<Rightarrow> real \<Rightarrow> float64 list" where
  "heart_rate_suppressed df motion_threshold =
     map2 (\<lambda>flag s. if flag then None else heart_rate s)
       (hr_artifact_col df motion_threshold) df"

definition spo2_suppressed :: "sample list \<Rightarrow> real \<Rightarrow> float64 list" where
  "spo2_suppressed df motion_threshold =
     map2 (\<lambda>flag s. if flag then None else spo2 s)
       (spo2_artifact_col df motion_threshold) df"

definition artifact_confidence_col :: "sample list \<Rightarrow> float64 list" where
  "artifact_confidence_col df =
     map (\<lambda>m. map_option (\<lambda>x. 1.0 - x) (clip 0 1 m))
       (rolling_center 60 agg_mean (map vibration df))"

definition detect_and_clean_artifacts :: "sample list \<Rightarrow> real \<Rightarrow> cleaned_sample list" where
  "detect_and_clean_artifacts df motion_threshold =
     (let is_motion_c = is_motion_col df motion_threshold;
          motion_risk_c = motion_risk_col df motion_threshold;
          hr_artifact_c = hr_artifact_col df motion_threshold;
          spo2_artifact_c = spo2_artifact_col df motion_threshold;
          heart_rate_c = interpolate 30 (heart_rate_suppressed df motion_threshold);
          spo2_c = interpolate 30 (spo2_suppressed df motion_threshold);
          artifact_confidence_c = artifact_confidence_col df
      in map (\<lambda>i. sample.extend
                     ((df ! i) \<lparr> heart_rate := heart_rate_c ! i, spo2 := spo2_c ! i \<rparr>)
                     \<lparr> is_motion = is_motion_c ! i, motion_risk = motion_risk_c ! i,
                       hr_artifact = hr_artifact_c ! i, spo2_artifact = spo2_artifact_c ! i,
                       artifact_confidence = artifact_confidence_c ! i \<rparr>)
           [0..<length df])"

section \<open>anomaly_model.py\<close>

text \<open>
  \<open>np.mean\<close> and \<open>np.var\<close> on an array: a NaN element makes the result NaN, and so does
  the empty array. \<open>np.var\<close> is the population variance.
\<close>

definition np_mean :: "float64 list \<Rightarrow> float64" where
  "np_mean v = (case those v of None \<Rightarrow> None | Some vs \<Rightarrow> agg_mean vs)"

definition np_var :: "float64 list \<Rightarrow> float64" where
  "np_var v =
     (case those v of
        None \<Rightarrow> None
      | Some vs \<Rightarrow>
          (case agg_mean vs of
             None \<Rightarrow> None
           | Some m \<Rightarrow> agg_mean (map (\<lambda>x. (abs (x - m))\<^sup>2) vs)))"

text \<open>\<open>Series.mean()\<close> of pandas skips NaN; NaN when nothing is left.\<close>

definition pd_mean :: "float64 list \<Rightarrow> float64" where
  "pd_mean v = agg_mean (map the (filter (\<lambda>x. x \<noteq> None) v))"

text \<open>
  The slope of \<open>scipy.stats.linregress(t, v)\<close> with \<open>t = np.arange(len(v))\<close>: the
  covariance of \<open>t\<close> and \<open>v\<close> over the variance of \<open>t\<close>, both with divisor \<open>len(v)\<close>.
  It is called on at least two points only, so the variance of \<open>t\<close> is not zero.
\<close>

definition linregress_slope :: "real list \<Rightarrow> real" where
  "linregress_slope v =
     (let n = length v;
          t = map real [0..<n];
          xmean = sum_list t / real n;
          ymean = sum_list v / real n;
          ssxm = sum_list (map (\<lambda>x. (x - xmean) * (x - xmean)) t) / real n;
          ssxym = sum_list (map2 (\<lambda>x y. (x - xmean) * (y - ymean)) t v) / real n
      in ssxym / ssxm)"

definition slope_col :: "float64 list \<Rightarrow> float64" where
  "slope_col v =
     (if length v > 1 \<and> \<not> list_ex isnan v then Some (linregress_slope (map the v))
      else Some 0.0)"

definition extract_features :: "cleaned_sample list \<Rightarrow> features" where
  "extract_features window =
     \<lparr> heart_rate_mean = np_mean (map heart_rate window),
       heart_rate_var = np_var (map heart_rate window),
       heart_rate_slope = slope_col (map heart_rate window),
       spo2_mean = np_mean (map spo2 window),
       spo2_var = np_var (map spo2 window),
       spo2_slope = slope_col (map spo2 window),
       bp_systolic_mean = np_mean (map bp_systolic window),
       bp_systolic_var = np_var (map bp_systolic window),
       bp_systolic_slope = slope_col (map bp_systolic window),
       confidence_mean = pd_mean (map artifact_confidence window) \<rparr>"

text \<open>The three detection rules, in the order of the source, and \<open>"; ".join(reasons)\<close>.\<close>

definition rule_reasons :: "features \<Rightarrow> string list" where
  "rule_reasons feats =
     (if fgt (heart_rate_slope feats) 0.05 \<and> fgt (heart_rate_mean feats) 100
      then [''Rising HR trend''] else [])
     @ (if flt (spo2_slope feats) (- 0.01) \<and> flt (spo2_mean feats) 95
        then [''Declining SpO2 trend''] else [])
     @ (if fgt (bp_systolic_slope feats) 0.1 \<and> fgt (bp_systolic_mean feats) 140
        then [''Rising Systolic BP''] else [])"

fun join :: "string \<Rightarrow> string list \<Rightarrow> string" where
  "join sep [] = []"
| "join sep [x] = x"
| "join sep (x # y # ys) = x @ sep @ join sep (y # ys)"

datatype error = ValueError | IndexError | HTTPException nat

text \<open>
  \<open>range(0, stop, step)\<close> for a step that is not negative: Python raises ValueError on
  step 0; the range is empty when \<open>stop \<le> 0\<close>.
\<close>

definition range0 :: "int \<Rightarrow> nat \<Rightarrow> error + nat list" where
  "range0 stop step =
     (if step = 0 then Inl ValueError
      else Inr (filter (\<lambda>k. k mod step = 0) [0..<nat stop]))"

text \<open>
  The body of the loop of \<open>detect_anomalies\<close> on one window: \<open>window['timestamp'].iloc[-1]\<close>
  raises IndexError on an empty window.
\<close>

definition window_row :: "cleaned_sample list \<Rightarrow> error + anomaly_row" where
  "window_row window =
     (let feats = extract_features window
      in case window of
           [] \<Rightarrow> Inl IndexError
         | _ # _ \<Rightarrow>
             Inr (features.extend feats
                    \<lparr> window_timestamp = timestamp (last window),
                      is_anomaly = (rule_reasons feats \<noteq> []),
                      confidence = confidence_mean feats,
                      reasons = join ''; '' (rule_reasons feats) \<rparr>))"

fun window_rows :: "cleaned_sample list \<Rightarrow> nat \<Rightarrow> nat list \<Rightarrow> error + anomaly_row list" where
  "window_rows df window_size [] = Inr []"
| "window_rows df window_size (start # rest) =
     (case window_row (take window_size (drop start df)) of
        Inl e \<Rightarrow> Inl e
      | Inr row \<Rightarrow>
          (case window_rows df window_size rest of
             Inl e \<Rightarrow> Inl e
           | Inr rows \<Rightarrow> Inr (row # rows)))"

text \<open>
  \<open>detect_anomalies(df, window_size, step_size)\<close>, defaults 30 and 10, for sizes that are
  not negative: the loop runs over \<open>range(0, len(df) - window_size, step_size)\<close>.
\<close>

definition window_starts :: "nat \<Rightarrow> nat \<Rightarrow> nat \<Rightarrow> error + nat list" where
  "window_starts len window_size step_size = range0 (int len - int window_size) step_size"

definition detect_anomalies :: "cleaned_sample list \<Rightarrow> nat \<Rightarrow> nat \<Rightarrow> error + anomaly_row list" where
  "detect_anomalies df window_size step_size =
     (case window_starts (length df) window_size step_size of
        Inl e \<Rightarrow> Inl e
      | Inr starts \<Rightarrow> window_rows df window_size starts)"

section \<open>api/app.py\<close>

record prediction_response =
  anomaly :: bool
  response_risk_score :: real
  response_confidence :: real
  details :: string

text \<open>
  \<open>predict_risk(data)\<close>. The HTTPException with status 400 is raised inside the \<open>try\<close>
  block, whose \<open>except Exception\<close> handler catches it and raises the one with status 500.
  The steps after the size check raise nothing on a list of samples.
\<close>

definition predict_risk :: "(float64 \<Rightarrow> string) \<Rightarrow> sample list \<Rightarrow> error + prediction_response" where
  "predict_risk fmt data =
     (if length data < 10 then Inl (HTTPException 500)
      else
        (let df_clean = detect_and_clean_artifacts data 0.6;
             feats = extract_features df_clean;
             temp_row = features.extend feats
               \<lparr> window_timestamp = timestamp (last data), is_anomaly = False,
                 confidence = confidence_mean feats,
                 reasons = join ''; '' (rule_reasons feats) \<rparr>;
             risk_df = calculate_risk_and_alerts fmt [temp_row] 0.6 0.7
         in case risk_df of
              [] \<Rightarrow> Inl IndexError
            | result # _ \<Rightarrow>
                Inr \<lparr> anomaly = alert_triggered result,
                      response_risk_score =
                        (case risk_score result of None \<Rightarrow> 0.0 | Some x \<Rightarrow> x),
                      response_confidence =
                        (case final_confidence result of None \<Rightarrow> 0.0 | Some x \<Rightarrow> x),
                      details = alert_comment result \<rparr>))"

section \<open>Inputs of the scenarios\<close>

text \<open>The window of the two-window alert scenario, and a formatter for closed examples.\<close>

definition critical_window :: anomaly_row where
  "critical_window =
     \<lparr> heart_rate_mean = Some 115, heart_rate_var = Some 5, heart_rate_slope = Some 0.08,
       spo2_mean = Some 90, spo2_var = Some 0, spo2_slope = Some (- 0.02),
       bp_systolic_mean = Some 120, bp_systolic_var = Some 0, bp_systolic_slope = Some 0,
       confidence_mean = Some 0.9,
       window_timestamp = Some 29, is_anomaly = True, confidence = Some 0.9,
       reasons = ''Rising HR trend; Declining SpO2 trend'' \<rparr>"

definition scenario_window :: "anomaly_row \<Rightarrow> bool" where
  "scenario_window r =
     (heart_rate_mean r = Some 115 \<and> heart_rate_slope r = Some 0.08
      \<and> spo2_mean r = Some 90 \<and> spo2_slope r = Some (- 0.02)
      \<and> (\<exists>b. bp_systolic_mean r = Some b \<and> b \<le> 120)
      \<and> confidence_mean r = Some 0.9 \<and> confidence r = Some 0.9
      \<and> heart_rate_var r = Some 5)"

text \<open>A window of maximal risk under heavy motion.\<close>

definition saturated_window :: anomaly_row where
  "saturated_window =
     \<lparr> heart_rate_mean = Some 130, heart_rate_var = Some 80, heart_rate_slope = Some 0,
       spo2_mean = Some 85, spo2_var = Some 1, spo2_slope = Some 0,
       bp_systolic_mean = Some 170, bp_systolic_var = Some 1, bp_systolic_slope = Some 0,
       confidence_mean = Some 0.2,
       window_timestamp = Some 39, is_anomaly = False, confidence = Some 0.2,
       reasons = [] \<rparr>"

text \<open>A sample of a patient at rest in a vehicle at rest.\<close>

definition steady_sample :: sample where
  "steady_sample =
     \<lparr> timestamp = Some 0, heart_rate = Some 80, spo2 = Some 98,
       bp_systolic = Some 120, bp_diastolic = Some 80, vibration = Some 0 \<rparr>"

text \<open>
  A window of two cleaned samples at the start of a stream: the first heart rate is
  missing (interpolation leaves a leading NaN) and so is its confidence.
\<close>

definition gap_window :: "cleaned_sample list" where
  "gap_window =
     [sample.extend (steady_sample \<lparr> heart_rate := None \<rparr>)
        \<lparr> is_motion = False, motion_risk = 0, hr_artifact = False, spo2_artifact = False,
          artifact_confidence = None \<rparr>,
      sample.extend (steady_sample \<lparr> timestamp := Some 1 \<rparr>)
        \<lparr> is_motion = False, motion_risk = 0, hr_artifact = False, spo2_artifact = False,
          artifact_confidence = Some 0.8 \<rparr>]"

text \<open>The known values of a column, in order: what an aggregate that skips NaN sees.\<close>

fun known_values :: "float64 list \<Rightarrow> real list" where
  "known_values [] = []"
| "known_values (None # xs) = known_values xs"
| "known_values (Some x # xs) = x # known_values xs"

text \<open>A cleaned sample at rest with the given heart rate, and two windows of them.\<close>

definition at_rest :: "real \<Rightarrow> cleaned_sample" where
  "at_rest hr =
     sample.extend (steady_sample \<lparr> heart_rate := Some hr \<rparr>)
       \<lparr> is_motion = False, motion_risk = 0, hr_artifact = False, spo2_artifact = False,
         artifact_confidence = Some 1 \<rparr>"

definition rising_window :: "cleaned_sample list" where
  "rising_window = [at_rest 80, at_rest 81, at_rest 83]"

definition flat_window :: "cleaned_sample list" where
  "flat_window = [at_rest 80, at_rest 80, at_rest 80]"

text \<open>A score that is a number between 0 and 1; NaN is not.\<close>

definition in_unit_interval :: "float64 \<Rightarrow> bool" where
  "in_unit_interval a = (case a of None \<Rightarrow> False | Some x \<Rightarrow> 0 \<le> x \<and> x \<le> 1)"

text \<open>The anomaly row of a window of two steady samples in a stream of three.\<close>

definition steady_row :: anomaly_row where
  "steady_row =
     \<lparr> heart_rate_mean = Some 80, heart_rate_var = Some 0, heart_rate_slope = Some 0,
       spo2_mean = Some 98, spo2_var = Some 0, spo2_slope = Some 0,
       bp_systolic_mean = Some 120, bp_systolic_var = Some 0, bp_systolic_slope = Some 0,
       confidence_mean = None,
       window_timestamp = Some 0, is_anomaly = False, confidence = None, reasons = [] \<rparr>"

text \<open>
  A stream of 61 samples: the vehicle is at rest for the first 60 and bumps at the last
  one; the heart rate jumps at positions 40 and 58.
\<close>

definition bump_stream :: "sample list" where
  "bump_stream =
     map (\<lambda>i. steady_sample
                 \<lparr> timestamp := Some (real i),
                   heart_rate := Some (if i = 40 then 120 else if i = 58 then 100 else 80),
                   vibration := Some (if i = 60 then 1 else 0) \<rparr>) [0..<61]"

text \<open>
  A stream of 33 samples at rest whose heart rate is known at the first and the last
  position only: a gap of 31 samples.
\<close>

definition gap_stream :: "sample list" where
  "gap_stream =
     map (\<lambda>i. steady_sample
                 \<lparr> timestamp := Some (real i),
                   heart_rate := (if i = 0 then Some 80 else if i = 32 then Some 112
                                  else None) \<rparr>) [0..<33]"

section \<open>Facts about the columns of calculate_risk_and_alerts\<close>

lemma shift1_length: "length (shift1 xs) = length xs"
  by (cases xs) (simp_all add: shift1_def)

lemma shift1_nth:
  "i < length xs \<Longrightarrow> shift1 xs ! i = (if i = 0 then None else Some (xs ! (i - 1)))"
proof (cases i)
  case 0
  assume "i < length xs"
  with 0 show ?thesis by (cases xs) (simp_all add: shift1_def)
next
  case (Suc n)
  assume a: "i < length xs"
  then have ne: "xs \<noteq> []" by auto
  then have s: "shift1 xs = None # map Some (butlast xs)"
    by (cases xs) (simp_all add: shift1_def del: butlast.simps)
  from a Suc have "n < length (butlast xs)" by simp
  then have "map Some (butlast xs) ! n = Some (xs ! n)"
    by (simp add: nth_butlast)
  with s Suc show ?thesis by simp
qed

lemma calculate_length:
  "length (calculate_risk_and_alerts fmt rs rt ct) = length rs"
  by (simp add: calculate_risk_and_alerts_def Let_def fillna_def shift1_length)

text \<open>Row \<open>i\<close> of the result depends on row \<open>i\<close> and on the breach flag of row \<open>i - 1\<close> only.\<close>

lemma calculate_nth:
  assumes "i < length rs"
  shows "calculate_risk_and_alerts fmt rs rt ct ! i =
         risk_record fmt rt ct (rs ! i) (0 < i \<and> fgt (risk_score_col (rs ! (i - 1))) rt)"
  using assms
  by (simp add: calculate_risk_and_alerts_def Let_def fillna_def shift1_length shift1_nth)

lemma risk_record_fields:
  "risk_score (risk_record fmt rt ct r p) = risk_score_col r"
  "sensor_stability (risk_record fmt rt ct r p) = sensor_stability_col r"
  "final_confidence (risk_record fmt rt ct r p) = final_confidence_col r"
  "risk_threshold_breached (risk_record fmt rt ct r p) = fgt (risk_score_col r) rt"
  "confidence_acceptable (risk_record fmt rt ct r p) = fgt (final_confidence_col r) ct"
  "persistent_risk (risk_record fmt rt ct r p) = (fgt (risk_score_col r) rt \<and> p)"
  "alert_triggered (risk_record fmt rt ct r p) =
     ((fgt (risk_score_col r) rt \<and> p) \<and> fgt (final_confidence_col r) ct)"
  by (simp_all add: risk_record_def Let_def anomaly_row.extend_def)

lemma risk_record_comment:
  "alert_comment (risk_record fmt rt ct r p) =
     get_alert_comment fmt (risk_record fmt rt ct r p)"
  by (simp add: risk_record_def Let_def anomaly_row.extend_def get_alert_comment_def)

lemma scenario_scores:
  assumes "scenario_window r"
  shows "risk_score_col r = Some (68 / 75)"
    and "sensor_stability_col r = Some 0.95"
    and "final_confidence_col r = Some 0.915"
proof -
  from assms obtain b where bp: "bp_systolic_mean r = Some b" "b \<le> 120"
    by (auto simp add: scenario_window_def)
  from assms have f: "heart_rate_mean r = Some 115" "heart_rate_slope r = Some 0.08"
    "spo2_mean r = Some 90" "spo2_slope r = Some (- 0.02)"
    "confidence r = Some 0.9" "heart_rate_var r = Some 5"
    by (simp_all add: scenario_window_def)
  have h: "hr_risk r = Some (16 / 45)" using f by (simp add: hr_risk_def clip_def)
  have s: "spo2_risk r = Some 0.4" using f by (simp add: spo2_risk_def clip_def)
  have b: "bp_risk r = Some 0" using bp by (simp add: bp_risk_def clip_def max_def)
  have c: "critical_synergy r" using f by (simp add: critical_synergy_def fgt_def flt_def)
  show "risk_score_col r = Some (68 / 75)"
    by (simp add: risk_score_col_def h s b c fadd_def clip_def)
  show st: "sensor_stability_col r = Some 0.95"
    using f by (simp add: sensor_stability_col_def clip_def)
  show "final_confidence_col r = Some 0.915"
    using f by (simp add: final_confidence_col_def st fadd_def)
qed

lemma critical_window_scenario: "scenario_window critical_window"
  by (simp add: scenario_window_def critical_window_def)

section \<open>The alert state machine\<close>

text \<open>
  Claim C3. In every sequence of anomaly windows and at every position \<open>i\<close>, an alert at
  \<open>i\<close> implies that the risk threshold is breached at \<open>i\<close> and at \<open>i - 1\<close>, where the
  window before the first one counts as not breached; so the first window never alerts.
\<close>

theorem alert_needs_two_breaches:
  assumes "i < length rs"
  shows "(alert_triggered (calculate_risk_and_alerts fmt rs rt ct ! i) \<longrightarrow>
            risk_threshold_breached (calculate_risk_and_alerts fmt rs rt ct ! i)
          \<and> (if i = 0 then False
             else risk_threshold_breached (calculate_risk_and_alerts fmt rs rt ct ! (i - 1))))
       \<and> (i = 0 \<longrightarrow> \<not> alert_triggered (calculate_risk_and_alerts fmt rs rt ct ! i))"
proof -
  show ?thesis
  proof (cases i)
    case 0
    with assms show ?thesis
      by (simp add: calculate_nth risk_record_fields)
  next
    case (Suc n)
    with assms have "n < length rs" by simp
    with assms Suc show ?thesis
      by (simp add: calculate_nth risk_record_fields)
  qed
qed

theorem alert_needs_two_breaches_witness:
  "(1::nat) < length [critical_window, critical_window]
   \<and> alert_triggered
       (calculate_risk_and_alerts (\<lambda>_. []) [critical_window, critical_window] 0.6 0.7 ! 1)
   \<and> risk_threshold_breached
       (calculate_risk_and_alerts (\<lambda>_. []) [critical_window, critical_window] 0.6 0.7 ! 1)
   \<and> risk_threshold_breached
       (calculate_risk_and_alerts (\<lambda>_. []) [critical_window, critical_window] 0.6 0.7 ! 0)
   \<and> \<not> alert_triggered
       (calculate_risk_and_alerts (\<lambda>_. []) [critical_window, critical_window] 0.6 0.7 ! 0)"
proof -
  have l: "(1::nat) < length [critical_window, critical_window]" by simp
  have a: "alert_triggered
       (calculate_risk_and_alerts (\<lambda>_. []) [critical_window, critical_window] 0.6 0.7 ! 1)"
    by (simp add: calculate_nth risk_record_fields fgt_def
        scenario_scores [OF critical_window_scenario])
  have z: "(0::nat) < length [critical_window, critical_window]" by simp
  from alert_needs_two_breaches [OF l, of "\<lambda>_. []" "0.6" "0.7"]
    alert_needs_two_breaches [OF z, of "\<lambda>_. []" "0.6" "0.7"] a l
  show ?thesis by simp
qed

text \<open>
  Claim C8. A window whose risk score is 1.0 while its final confidence is at most the
  confidence threshold does not alert and is commented as SUPPRESSED, whatever the
  previous window did. The score 1.0 breaches the risk threshold when that threshold is
  below 1, as the default 0.6 is.
\<close>

theorem full_risk_low_confidence_suppressed:
  assumes "i < length rs" and "rt < 1"
    and "risk_score (calculate_risk_and_alerts fmt rs rt ct ! i) = Some 1"
    and "final_confidence (calculate_risk_and_alerts fmt rs rt ct ! i) = Some c"
    and "c \<le> ct"
  shows "\<not> alert_triggered (calculate_risk_and_alerts fmt rs rt ct ! i)
       \<and> prefix ''SUPPRESSED'' (alert_comment (calculate_risk_and_alerts fmt rs rt ct ! i))"
proof -
  let ?o = "calculate_risk_and_alerts fmt rs rt ct ! i"
  from assms have rs1: "risk_score_col (rs ! i) = Some 1"
    and fc: "final_confidence_col (rs ! i) = Some c"
    by (simp_all add: calculate_nth risk_record_fields)
  from rs1 \<open>rt < 1\<close> have br: "risk_threshold_breached ?o"
    using assms(1) by (simp add: calculate_nth risk_record_fields fgt_def)
  from fc \<open>c \<le> ct\<close> have na: "\<not> confidence_acceptable ?o"
    using assms(1) by (simp add: calculate_nth risk_record_fields fgt_def)
  then have nt: "\<not> alert_triggered ?o"
    using assms(1) by (simp add: calculate_nth risk_record_fields)
  have "alert_comment ?o = get_alert_comment fmt ?o"
    using assms(1) by (simp add: calculate_nth risk_record_comment)
  with br na nt show ?thesis
    by (simp add: get_alert_comment_def)
qed

lemma saturated_window_scores:
  "risk_score_col saturated_window = Some 1"
  "final_confidence_col saturated_window = Some 0.29"
proof -
  have h: "hr_risk saturated_window = Some 0.4"
    by (simp add: hr_risk_def clip_def saturated_window_def)
  have s: "spo2_risk saturated_window = Some 0.4"
    by (simp add: spo2_risk_def clip_def saturated_window_def)
  have b: "bp_risk saturated_window = Some 0.2"
    by (simp add: bp_risk_def clip_def saturated_window_def)
  have c: "\<not> critical_synergy saturated_window"
    by (simp add: critical_synergy_def fgt_def flt_def saturated_window_def)
  show "risk_score_col saturated_window = Some 1"
    by (simp add: risk_score_col_def h s b c fadd_def clip_def)
  have st: "sensor_stability_col saturated_window = Some 0.5"
    by (simp add: sensor_stability_col_def clip_def saturated_window_def)
  have cf: "confidence saturated_window = Some 0.2"
    by (simp add: saturated_window_def)
  show "final_confidence_col saturated_window = Some 0.29"
    by (simp add: final_confidence_col_def st cf fadd_def)
qed

theorem full_risk_low_confidence_suppressed_witness:
  "(1::nat) < length [saturated_window, saturated_window] \<and> (0.6::real) < 1
   \<and> risk_score
       (calculate_risk_and_alerts (\<lambda>_. []) [saturated_window, saturated_window] 0.6 0.7 ! 1)
     = Some 1
   \<and> final_confidence
       (calculate_risk_and_alerts (\<lambda>_. []) [saturated_window, saturated_window] 0.6 0.7 ! 1)
     = Some 0.29
   \<and> (0.29::real) \<le> 0.7
   \<and> \<not> alert_triggered
       (calculate_risk_and_alerts (\<lambda>_. []) [saturated_window, saturated_window] 0.6 0.7 ! 1)
   \<and> prefix ''SUPPRESSED''
       (alert_comment
         (calculate_risk_and_alerts (\<lambda>_. []) [saturated_window, saturated_window] 0.6 0.7 ! 1))"
proof -
  let ?o = "calculate_risk_and_alerts (\<lambda>_. []) [saturated_window, saturated_window] 0.6 0.7 ! 1"
  have l: "(1::nat) < length [saturated_window, saturated_window]" by simp
  have t: "(0.6::real) < 1" by simp
  have r: "risk_score ?o = Some 1"
    by (simp add: calculate_nth risk_record_fields saturated_window_scores)
  have f: "final_confidence ?o = Some 0.29"
    by (simp add: calculate_nth risk_record_fields saturated_window_scores)
  have c: "(0.29::real) \<le> 0.7" by simp
  from full_risk_low_confidence_suppressed [OF l t r f c] l t r f c
  show ?thesis by simp
qed

text \<open>
  Claim C2, as amended. Two consecutive windows with heart_rate_mean 115, heart_rate_slope
  0.08, spo2_mean 90, spo2_slope -0.02, bp_systolic_mean at most 120, confidence 0.9 and
  heart_rate_var 5 each get the risk score 68/75 (the heart-rate term is
  (115 - 75) / 45 * 0.4 = 16/45, not 0.4), sensor stability 0.95 and final confidence
  0.915; under the default thresholds the second of them alerts, with a comment that
  begins with CRITICAL.
\<close>

theorem two_window_scenario:
  assumes "Suc i < length rs"
    and "scenario_window (rs ! i)" and "scenario_window (rs ! Suc i)"
  shows "(\<forall>k \<in> {i, Suc i}.
            risk_score (calculate_risk_and_alerts fmt rs 0.6 0.7 ! k) = Some (68 / 75)
          \<and> sensor_stability (calculate_risk_and_alerts fmt rs 0.6 0.7 ! k) = Some 0.95
          \<and> final_confidence (calculate_risk_and_alerts fmt rs 0.6 0.7 ! k) = Some 0.915)
       \<and> alert_triggered (calculate_risk_and_alerts fmt rs 0.6 0.7 ! Suc i)
       \<and> prefix ''CRITICAL'' (alert_comment (calculate_risk_and_alerts fmt rs 0.6 0.7 ! Suc i))"
proof -
  let ?out = "calculate_risk_and_alerts fmt rs 0.6 0.7"
  from assms(1) have i: "i < length rs" by simp
  have a: "alert_triggered (?out ! Suc i)"
    using assms(1)
    by (simp add: calculate_nth risk_record_fields fgt_def
        scenario_scores [OF assms(2)] scenario_scores [OF assms(3)])
  have "alert_comment (?out ! Suc i) = get_alert_comment fmt (?out ! Suc i)"
    using assms(1) by (simp add: calculate_nth risk_record_comment)
  with a have p: "prefix ''CRITICAL'' (alert_comment (?out ! Suc i))"
    by (simp add: get_alert_comment_def)
  have "risk_score (?out ! k) = Some (68 / 75)
       \<and> sensor_stability (?out ! k) = Some 0.95
       \<and> final_confidence (?out ! k) = Some 0.915" if "k \<in> {i, Suc i}" for k
  proof -
    from that assms have "k < length rs" and "scenario_window (rs ! k)" by auto
    then show ?thesis
      by (simp add: calculate_nth risk_record_fields scenario_scores)
  qed
  with a p show ?thesis by blast
qed

theorem two_window_scenario_witness:
  "Suc 0 < length [critical_window, critical_window]
   \<and> scenario_window ([critical_window, critical_window] ! 0)
   \<and> scenario_window ([critical_window, critical_window] ! Suc 0)
   \<and> risk_score
       (calculate_risk_and_alerts (\<lambda>_. []) [critical_window, critical_window] 0.6 0.7 ! 0)
     = Some (68 / 75)
   \<and> final_confidence
       (calculate_risk_and_alerts (\<lambda>_. []) [critical_window, critical_window] 0.6 0.7 ! Suc 0)
     = Some 0.915
   \<and> alert_triggered
       (calculate_risk_and_alerts (\<lambda>_. []) [critical_window, critical_window] 0.6 0.7 ! Suc 0)
   \<and> alert_comment
       (calculate_risk_and_alerts (\<lambda>_. []) [critical_window, critical_window] 0.6 0.7 ! Suc 0)
     = ''CRITICAL: High risk () with stable sensor (). Rising HR trend; Declining SpO2 trend''"
proof -
  let ?rs = "[critical_window, critical_window]"
  have l: "Suc 0 < length ?rs" by simp
  have s0: "scenario_window (?rs ! 0)" by (simp add: critical_window_scenario)
  have s1: "scenario_window (?rs ! Suc 0)" by (simp add: critical_window_scenario)
  have c: "alert_comment (calculate_risk_and_alerts (\<lambda>_. []) ?rs 0.6 0.7 ! Suc 0)
         = get_alert_comment (\<lambda>_. []) (calculate_risk_and_alerts (\<lambda>_. []) ?rs 0.6 0.7 ! Suc 0)"
    by (simp add: calculate_nth risk_record_comment)
  have r: "reasons (calculate_risk_and_alerts (\<lambda>_. []) ?rs 0.6 0.7 ! Suc 0)
         = ''Rising HR trend; Declining SpO2 trend''"
    by (simp add: calculate_nth risk_record_def Let_def anomaly_row.extend_def
        critical_window_def)
  from two_window_scenario [OF l s0 s1, of "\<lambda>_. []"] l s0 s1 c r
  show ?thesis by (simp add: get_alert_comment_def)
qed

text \<open>
  The risk score of the scenario window is 68/75, about 0.907, and not the 0.96 of the
  scenario as written.
\<close>

theorem two_window_scenario_score_counterexample:
  "scenario_window critical_window
   \<and> risk_score
       (calculate_risk_and_alerts (\<lambda>_. []) [critical_window, critical_window] 0.6 0.7 ! 0)
     \<noteq> Some 0.96"
proof -
  have "risk_score
       (calculate_risk_and_alerts (\<lambda>_. []) [critical_window, critical_window] 0.6 0.7 ! 0)
     = Some (68 / 75)"
    by (simp add: calculate_nth risk_record_fields
        scenario_scores [OF critical_window_scenario])
  then show ?thesis by (simp add: critical_window_scenario)
qed

section \<open>The single-shot request\<close>

lemma calculate_single:
  "calculate_risk_and_alerts fmt [r] rt ct = [risk_record fmt rt ct r False]"
  by (simp add: calculate_risk_and_alerts_def shift1_def fillna_def)

lemma predict_risk_total:
  "10 \<le> length data \<Longrightarrow> \<exists>resp. predict_risk fmt data = Inr resp"
  by (simp add: predict_risk_def Let_def calculate_single)

lemma predict_risk_steady:
  "predict_risk (\<lambda>_. []) (replicate 10 steady_sample) =
     Inr \<lparr> anomaly = False, response_risk_score = 2 / 45, response_confidence = 0,
           details = ''Normal status.'' \<rparr>"
  by code_simp

text \<open>
  Claim C1. Every request to /predict that returns a response returns it with
  \<open>anomaly = False\<close>: the risk frame has one row, whose shifted breach flag is False, so
  \<open>persistent_risk\<close> and \<open>alert_triggered\<close> are False.
\<close>

theorem predict_risk_never_alerts:
  assumes "predict_risk fmt data = Inr resp"
  shows "\<not> anomaly resp"
  using assms
  by (auto simp add: predict_risk_def Let_def calculate_single risk_record_fields
      split: if_splits)

theorem predict_risk_never_alerts_witness:
  "predict_risk (\<lambda>_. []) (replicate 10 steady_sample) =
     Inr \<lparr> anomaly = False, response_risk_score = 2 / 45, response_confidence = 0,
           details = ''Normal status.'' \<rparr>
   \<and> \<not> anomaly \<lparr> anomaly = False, response_risk_score = 2 / 45, response_confidence = 0,
                  details = ''Normal status.'' \<rparr>"
  using predict_risk_never_alerts [OF predict_risk_steady] predict_risk_steady
  by simp

section \<open>The sliding window\<close>

lemma detect_and_clean_length:
  "length (detect_and_clean_artifacts df mt) = length df"
  by (simp add: detect_and_clean_artifacts_def Let_def)

text \<open>
  Claim C6. A cleaned sequence of 30 samples, window size 30 and step 10: the window
  that starts at offset 0 satisfies \<open>start + W \<le> L\<close>, and \<open>detect_anomalies\<close> emits no
  window at all, since its loop runs over \<open>range(0, L - W, S)\<close>.
\<close>

theorem detect_anomalies_drops_final_window:
  "detect_anomalies (detect_and_clean_artifacts (replicate 30 steady_sample) 0.6) 30 10
     = Inr []"
  by (simp add: detect_anomalies_def window_starts_def range0_def detect_and_clean_length)

section \<open>Unknown values in a feature window\<close>

lemma those_None: "None \<in> set xs \<Longrightarrow> those xs = None"
  by (induction xs) (auto split: option.splits)

lemma np_mean_nan: "None \<in> set v \<Longrightarrow> np_mean v = None"
  by (simp add: np_mean_def those_None)

lemma np_var_nan: "None \<in> set v \<Longrightarrow> np_var v = None"
  by (simp add: np_var_def those_None)

lemma slope_col_nan: "None \<in> set v \<Longrightarrow> slope_col v = Some 0"
  by (auto simp add: slope_col_def list_ex_iff isnan_def)

lemma pd_mean_known:
  "pd_mean v =
     (case known_values v of
        [] \<Rightarrow> None
      | _ # _ \<Rightarrow> Some (sum_list (known_values v) / real (length (known_values v))))"
proof -
  have "map the (filter (\<lambda>x. x \<noteq> None) v) = known_values v"
    by (induction v rule: known_values.induct) simp_all
  then show ?thesis by (simp add: pd_mean_def agg_mean_def split: list.splits)
qed

text \<open>
  Claim C5, as amended. A window with an unknown heart_rate, spo2 or bp_systolic value
  gets NaN as that signal's mean and variance, and slope 0: \<open>np.mean\<close> and \<open>np.var\<close>
  propagate the unknown. Only \<open>confidence_mean\<close> excludes unknowns: it is the arithmetic
  mean of the known artifact_confidence values, and NaN when there is none.
\<close>

theorem extract_features_unknowns:
  "(None \<in> set (map heart_rate window) \<longrightarrow>
      heart_rate_mean (extract_features window) = None
    \<and> heart_rate_var (extract_features window) = None
    \<and> heart_rate_slope (extract_features window) = Some 0)
 \<and> (None \<in> set (map spo2 window) \<longrightarrow>
      spo2_mean (extract_features window) = None
    \<and> spo2_var (extract_features window) = None
    \<and> spo2_slope (extract_features window) = Some 0)
 \<and> (None \<in> set (map bp_systolic window) \<longrightarrow>
      bp_systolic_mean (extract_features window) = None
    \<and> bp_systolic_var (extract_features window) = None
    \<and> bp_systolic_slope (extract_features window) = Some 0)
 \<and> confidence_mean (extract_features window) =
      (case known_values (map artifact_confidence window) of
         [] \<Rightarrow> None
       | _ # _ \<Rightarrow> Some (sum_list (known_values (map artifact_confidence window))
                        / real (length (known_values (map artifact_confidence window)))))"
proof -
  have "confidence_mean (extract_features window) = pd_mean (map artifact_confidence window)"
    by (simp add: extract_features_def)
  then show ?thesis
    by (simp add: pd_mean_known [symmetric] extract_features_def np_mean_nan np_var_nan
        slope_col_nan del: set_map)
qed

lemma gap_window_columns:
  "map heart_rate gap_window = [None, Some 80]"
  "map artifact_confidence gap_window = [None, Some 0.8]"
  by (simp_all add: gap_window_def sample.extend_def steady_sample_def)

theorem extract_features_unknowns_witness:
  "None \<in> set (map heart_rate gap_window)
   \<and> heart_rate_mean (extract_features gap_window) = None
   \<and> heart_rate_var (extract_features gap_window) = None
   \<and> heart_rate_slope (extract_features gap_window) = Some 0
   \<and> confidence_mean (extract_features gap_window) = Some 0.8"
  using extract_features_unknowns [of gap_window]
  by (simp add: gap_window_columns)

text \<open>
  The window has one unknown heart rate and the known value 80; its heart_rate_mean is
  NaN, not the mean 80 of the known values.
\<close>

theorem extract_features_mean_counterexample:
  "None \<in> set (map heart_rate gap_window)
   \<and> known_values (map heart_rate gap_window) = [80]
   \<and> heart_rate_mean (extract_features gap_window) \<noteq> Some 80"
  by (simp add: gap_window_columns extract_features_def np_mean_def)

section \<open>The least-squares slope\<close>

lemma sum_list_upt: "sum_list (map f [0..<n]) = (\<Sum>i<n. f i)"
  by (simp add: interv_sum_list_conv_sum_set_nat atLeast0LessThan)

lemma map2_upt:
  "map2 g (map h [0..<length v]) v = map (\<lambda>i. g (h i) (v ! i)) [0..<length v]"
  by (rule nth_equalityI) simp_all

lemma sum_index: "(\<Sum>i<n. real i) = real n * (real n - 1) / 2"
  by (induction n) (simp_all add: field_simps)

text \<open>The slope as a quotient of two sums over the positions.\<close>

lemma linregress_slope_sums:
  fixes v :: "real list"
  defines "n \<equiv> length v"
  defines "m \<equiv> (real n - 1) / 2"
  assumes n2: "2 \<le> n"
  shows "linregress_slope v =
           ((\<Sum>i<n. (real i - m) * (v ! i - sum_list v / real n)) / real n)
         / ((\<Sum>i<n. (real i - m) * (real i - m)) / real n)"
proof -
  from n2 have n0: "real n \<noteq> 0" by simp
  have xm: "sum_list (map real [0..<n]) / real n = m"
    using n0 by (simp add: sum_list_upt sum_index m_def)
  have a: "sum_list (map (\<lambda>x. (x - m) * (x - m)) (map real [0..<n]))
         = (\<Sum>i<n. (real i - m) * (real i - m))"
    by (simp add: sum_list_upt comp_def)
  have b: "sum_list (map2 (\<lambda>x y. (x - m) * (y - sum_list v / real n)) (map real [0..<n]) v)
         = (\<Sum>i<n. (real i - m) * (v ! i - sum_list v / real n))"
    unfolding n_def by (simp only: map2_upt sum_list_upt)
  show ?thesis
    unfolding linregress_slope_def Let_def n_def [symmetric] xm a b ..
qed

lemma centred_index_sum:
  "(\<Sum>i<n. real i - (real n - 1) / 2) = 0"
proof -
  have "(\<Sum>i<n. real i - (real n - 1) / 2) = (\<Sum>i<n. real i) - real n * ((real n - 1) / 2)"
    by (simp add: sum_subtractf)
  then show ?thesis by (simp add: sum_index)
qed

lemma covariance_paired:
  fixes f :: "nat \<Rightarrow> real"
  defines "m \<equiv> \<lambda>n. (real n - 1) / 2"
  shows "2 * (\<Sum>i<n. (real i - m n) * (f i - c))
       = (\<Sum>i<n. (real i - m n) * (f i - f (n - Suc i)))"
proof -
  have z: "(\<Sum>i<n. real i - m n) = 0"
    unfolding m_def by (rule centred_index_sum)
  have "(\<Sum>i<n. (real i - m n) * (f i - c))
      = (\<Sum>i<n. (real i - m n) * f i - (real i - m n) * c)"
    by (simp add: right_diff_distrib)
  also have "\<dots> = (\<Sum>i<n. (real i - m n) * f i) - (\<Sum>i<n. (real i - m n) * c)"
    by (rule sum_subtractf)
  also have "(\<Sum>i<n. (real i - m n) * c) = (\<Sum>i<n. real i - m n) * c"
    by (rule sum_distrib_right [symmetric])
  finally have "(\<Sum>i<n. (real i - m n) * (f i - c))
      = (\<Sum>i<n. (real i - m n) * f i) - (\<Sum>i<n. real i - m n) * c" .
  with z have e1: "(\<Sum>i<n. (real i - m n) * (f i - c)) = (\<Sum>i<n. (real i - m n) * f i)"
    by simp
  have "(\<Sum>i<n. (real i - m n) * f i)
      = (\<Sum>i<n. (real (n - Suc i) - m n) * f (n - Suc i))"
    by (rule sum.nat_diff_reindex [symmetric])
  also have "\<dots> = (\<Sum>i<n. - ((real i - m n) * f (n - Suc i)))"
  proof (rule sum.cong)
    fix i assume "i \<in> {..<n}"
    then have "real (n - Suc i) = real n - 1 - real i" by (simp add: of_nat_diff)
    then show "(real (n - Suc i) - m n) * f (n - Suc i) = - ((real i - m n) * f (n - Suc i))"
      by (simp add: m_def field_simps)
  qed simp
  finally have e2: "(\<Sum>i<n. (real i - m n) * f i) = - (\<Sum>i<n. (real i - m n) * f (n - Suc i))"
    by (simp add: sum_negf)
  have "(\<Sum>i<n. (real i - m n) * (f i - f (n - Suc i)))
      = (\<Sum>i<n. (real i - m n) * f i) - (\<Sum>i<n. (real i - m n) * f (n - Suc i))"
    by (simp add: sum_subtractf right_diff_distrib)
  with e1 e2 show ?thesis by simp
qed

lemma covariance_increasing_pos:
  fixes v :: "real list"
  assumes "sorted_wrt (<) v" and "2 \<le> length v"
  shows "0 < (\<Sum>i<length v. (real i - (real (length v) - 1) / 2) * (v ! i - c))"
proof -
  let ?n = "length v"
  let ?m = "(real ?n - 1) / 2"
  let ?t = "\<lambda>i. (real i - ?m) * (v ! i - v ! (?n - Suc i))"
  have mono: "v ! i < v ! j" if "i < j" "j < ?n" for i j
    using assms(1) that by (simp add: sorted_wrt_iff_nth_less)
  have nonneg: "0 \<le> ?t i" if "i < ?n" for i
  proof -
    consider "i < ?n - Suc i" | "i = ?n - Suc i" | "?n - Suc i < i" by linarith
    then show ?thesis
    proof cases
      case 1
      with that have "v ! i < v ! (?n - Suc i)" by (intro mono) simp_all
      moreover have "real i < ?m"
      proof -
        from 1 that have "Suc (2 * i) < ?n" by simp
        then have "real (Suc (2 * i)) < real ?n" by (simp only: of_nat_less_iff)
        then show ?thesis by simp
      qed
      ultimately show ?thesis by (simp add: mult_nonpos_nonpos)
    next
      case 2
      then show ?thesis by simp
    next
      case 3
      with that have "v ! (?n - Suc i) < v ! i" by (intro mono) simp_all
      moreover have "?m < real i"
      proof -
        from 3 that have "?n < Suc (2 * i)" by simp
        then have "real ?n < real (Suc (2 * i))" by (simp only: of_nat_less_iff)
        then show ?thesis by simp
      qed
      ultimately show ?thesis by simp
    qed
  qed
  have pos0: "0 < ?t 0"
  proof -
    from assms(2) have "v ! 0 < v ! (?n - Suc 0)" by (intro mono) simp_all
    then have a: "v ! 0 - v ! (?n - Suc 0) < 0" by simp
    from assms(2) have "real 0 - ?m < 0" by simp
    from mult_neg_neg [OF this a] show ?thesis by simp
  qed
  have "0 < (\<Sum>i<?n. ?t i)"
  proof (rule sum_pos2 [where i = 0])
    show "finite {..<?n}" by simp
    show "0 \<in> {..<?n}" using assms(2) by auto
    show "0 < ?t 0" by (rule pos0)
    show "\<And>i. i \<in> {..<?n} \<Longrightarrow> 0 \<le> ?t i" using nonneg by simp
  qed
  then show ?thesis
    using covariance_paired [of ?n "\<lambda>i. v ! i" c] by simp
qed

lemma index_variance_pos:
  assumes "2 \<le> n"
  shows "0 < (\<Sum>i<n. (real i - (real n - 1) / 2) * (real i - (real n - 1) / 2))"
proof (rule sum_pos2 [where i = 0])
  show "finite {..<n}" by simp
  show "0 \<in> {..<n}" using assms by simp
  show "0 < (real 0 - (real n - 1) / 2) * (real 0 - (real n - 1) / 2)"
    using assms by (simp add: mult_neg_neg)
  show "\<And>i. i \<in> {..<n} \<Longrightarrow> 0 \<le> (real i - (real n - 1) / 2) * (real i - (real n - 1) / 2)"
    by simp
qed

lemma linregress_slope_increasing:
  assumes "sorted_wrt (<) v" and "2 \<le> length v"
  shows "0 < linregress_slope v"
proof -
  from assms(2) have "0 < length v" by linarith
  then have n: "0 < real (length v)" by simp
  show ?thesis
    unfolding linregress_slope_sums [OF assms(2)]
    using covariance_increasing_pos [OF assms] index_variance_pos [OF assms(2)] n
    by (intro divide_pos_pos) simp_all
qed

lemma linregress_slope_constant:
  assumes "2 \<le> n"
  shows "linregress_slope (replicate n c) = 0"
proof -
  from assms have l: "2 \<le> length (replicate n c)" by simp
  from assms have "sum_list (replicate n c) / real n = c" by (simp add: sum_list_replicate)
  then show ?thesis
    unfolding linregress_slope_sums [OF l] by simp
qed

lemma heart_rate_slope_known:
  assumes "2 \<le> length window" and "None \<notin> set (map heart_rate window)"
  shows "heart_rate_slope (extract_features window)
       = Some (linregress_slope (map (the \<circ> heart_rate) window))"
proof -
  from assms(2) have "\<not> list_ex isnan (map heart_rate window)"
    by (auto simp add: list_ex_iff isnan_def)
  with assms(1) show ?thesis
    by (simp add: extract_features_def slope_col_def)
qed

text \<open>
  Claim C10. On a window of at least two samples with no unknown heart rate, a strictly
  increasing heart-rate series gets a positive heart_rate_slope, and a constant series
  gets the slope 0.
\<close>

theorem heart_rate_slope_sign:
  assumes "2 \<le> length window" and "None \<notin> set (map heart_rate window)"
  shows "(sorted_wrt (<) (map (the \<circ> heart_rate) window) \<longrightarrow>
            (\<exists>s. heart_rate_slope (extract_features window) = Some s \<and> 0 < s))
       \<and> ((\<exists>c. \<forall>x \<in> set window. heart_rate x = Some c) \<longrightarrow>
            heart_rate_slope (extract_features window) = Some 0)"
proof (intro conjI impI)
  assume "sorted_wrt (<) (map (the \<circ> heart_rate) window)"
  moreover from assms(1) have "2 \<le> length (map (the \<circ> heart_rate) window)" by simp
  ultimately have "0 < linregress_slope (map (the \<circ> heart_rate) window)"
    by (rule linregress_slope_increasing)
  then show "\<exists>s. heart_rate_slope (extract_features window) = Some s \<and> 0 < s"
    by (simp add: heart_rate_slope_known [OF assms])
next
  assume "\<exists>c. \<forall>x \<in> set window. heart_rate x = Some c"
  then obtain c where c: "\<forall>x \<in> set window. heart_rate x = Some c" ..
  have "map (the \<circ> heart_rate) window = replicate (length window) c"
    by (rule nth_equalityI) (simp_all add: c)
  with assms(1) have "linregress_slope (map (the \<circ> heart_rate) window) = 0"
    by (simp add: linregress_slope_constant)
  then show "heart_rate_slope (extract_features window) = Some 0"
    by (simp add: heart_rate_slope_known [OF assms])
qed

lemma rising_window_column: "map heart_rate rising_window = [Some 80, Some 81, Some 83]"
  by (simp add: rising_window_def at_rest_def sample.extend_def steady_sample_def)

lemma flat_window_column: "map heart_rate flat_window = [Some 80, Some 80, Some 80]"
  by (simp add: flat_window_def at_rest_def sample.extend_def steady_sample_def)

lemma rising_window_slope: "heart_rate_slope (extract_features rising_window) = Some (3 / 2)"
  by (simp add: extract_features_def rising_window_column slope_col_def isnan_def
      linregress_slope_def Let_def upt_rec)

theorem heart_rate_slope_sign_witness:
  "2 \<le> length rising_window \<and> None \<notin> set (map heart_rate rising_window)
   \<and> sorted_wrt (<) (map (the \<circ> heart_rate) rising_window)
   \<and> heart_rate_slope (extract_features rising_window) = Some (3 / 2)
   \<and> 2 \<le> length flat_window \<and> None \<notin> set (map heart_rate flat_window)
   \<and> map heart_rate flat_window = [Some 80, Some 80, Some 80]
   \<and> heart_rate_slope (extract_features flat_window) = Some 0"
proof -
  have r1: "2 \<le> length rising_window" by (simp add: rising_window_def)
  have r2: "None \<notin> set (map heart_rate rising_window)" by (simp add: rising_window_column)
  have r3: "sorted_wrt (<) (map (the \<circ> heart_rate) rising_window)"
    using rising_window_column by (simp add: map_map [symmetric] del: map_map)
  have f1: "2 \<le> length flat_window" by (simp add: flat_window_def)
  have f2: "None \<notin> set (map heart_rate flat_window)" by (simp add: flat_window_column)
  have f3: "\<forall>x \<in> set flat_window. heart_rate x = Some 80"
    by (simp add: flat_window_def at_rest_def sample.extend_def steady_sample_def)
  from heart_rate_slope_sign [OF r1 r2] heart_rate_slope_sign [OF f1 f2]
    r1 r2 r3 f1 f2 f3 rising_window_slope flat_window_column
  show ?thesis by blast
qed

section \<open>Ranges of the scores\<close>

lemma rolling_center_length: "length (rolling_center w agg xs) = length xs"
  by (simp add: rolling_center_def)

lemma rolling_center_nth:
  "i < length xs \<Longrightarrow> rolling_center w agg xs ! i =
     (if w div 2 \<le> i \<and> i + (w - 1) div 2 < length xs
      then (case those (take w (drop (i - w div 2) xs)) of None \<Rightarrow> None | Some vs \<Rightarrow> agg vs)
      else None)"
  by (simp add: rolling_center_def)

lemma dca_artifact_confidence:
  "i < length df \<Longrightarrow> artifact_confidence (detect_and_clean_artifacts df mt ! i) =
     map_option (\<lambda>x. 1 - x) (clip 0 1 (rolling_center 60 agg_mean (map vibration df) ! i))"
  by (simp add: detect_and_clean_artifacts_def Let_def sample.extend_def
      artifact_confidence_col_def rolling_center_length)

lemma dca_motion_risk:
  "i < length df \<Longrightarrow> motion_risk (detect_and_clean_artifacts df mt ! i) =
     fillna 0 (rolling_center 5 agg_max
        (map (\<lambda>s. Some (if fgt (vibration s) mt then 1 else 0)) df)) ! i"
  by (simp add: detect_and_clean_artifacts_def Let_def sample.extend_def motion_risk_col_def
      is_motion_col_def comp_def)

lemma dca_hr_artifact:
  "i < length df \<Longrightarrow> hr_artifact (detect_and_clean_artifacts df mt ! i) =
     (motion_risk (detect_and_clean_artifacts df mt ! i) > 0.5
      \<and> fgt (diff_abs (map heart_rate df) ! i) 5)"
  by (simp add: detect_and_clean_artifacts_def Let_def sample.extend_def hr_artifact_col_def)

lemma dca_spo2_artifact:
  "i < length df \<Longrightarrow> spo2_artifact (detect_and_clean_artifacts df mt ! i) =
     ((motion_risk (detect_and_clean_artifacts df mt ! i) > 0.5
       \<and> fgt (diff_abs (map spo2 df) ! i) 2)
      \<or> (motion_risk (detect_and_clean_artifacts df mt ! i) > 0.8 \<and> flt (spo2 (df ! i)) 85))"
  by (simp add: detect_and_clean_artifacts_def Let_def sample.extend_def
      spo2_artifact_col_def)

lemma those_None_iff: "those xs = None \<longleftrightarrow> None \<in> set xs"
  by (induction xs) (auto split: option.splits)

lemma those_length: "those xs = Some vs \<Longrightarrow> length vs = length xs"
  by (induction xs arbitrary: vs) (auto split: option.splits)

lemma None_in_window:
  assumes "k + w \<le> length xs"
  shows "None \<in> set (take w (drop k xs)) \<longleftrightarrow> (\<exists>j. k \<le> j \<and> j < k + w \<and> xs ! j = None)"
proof
  assume "None \<in> set (take w (drop k xs))"
  then obtain j where "j < length (take w (drop k xs))" "take w (drop k xs) ! j = None"
    by (auto simp add: in_set_conv_nth)
  with assms have "j < w" "xs ! (k + j) = None" by simp_all
  then show "\<exists>j. k \<le> j \<and> j < k + w \<and> xs ! j = None"
    by (intro exI [of _ "k + j"]) simp
next
  assume "\<exists>j. k \<le> j \<and> j < k + w \<and> xs ! j = None"
  then obtain j where j: "k \<le> j" "j < k + w" "xs ! j = None" by blast
  with assms have "j - k < length (take w (drop k xs))" by simp
  moreover from j assms have "take w (drop k xs) ! (j - k) = None" by simp
  ultimately show "None \<in> set (take w (drop k xs))"
    by (metis nth_mem)
qed

lemma rolling_mean_None_iff:
  assumes "i < length xs"
  shows "rolling_center 60 agg_mean xs ! i = None \<longleftrightarrow>
         \<not> (30 \<le> i \<and> i + 29 < length xs \<and> (\<forall>j \<in> {i - 30 .. i + 29}. xs ! j \<noteq> None))"
proof (cases "30 \<le> i \<and> i + 29 < length xs")
  case False
  with assms show ?thesis by (auto simp add: rolling_center_nth)
next
  case True
  then have b: "(i - 30) + 60 \<le> length xs" by simp
  let ?win = "take 60 (drop (i - 30) xs)"
  have "rolling_center 60 agg_mean xs ! i = None \<longleftrightarrow> those ?win = None"
  proof (cases "those ?win")
    case None
    with True assms show ?thesis by (simp add: rolling_center_nth)
  next
    case (Some vs)
    with b have "length vs = 60" by (simp add: those_length)
    then have "agg_mean vs \<noteq> None" by (cases vs) (simp_all add: agg_mean_def)
    with Some True assms show ?thesis by (simp add: rolling_center_nth)
  qed
  also have "\<dots> \<longleftrightarrow> (\<exists>j. i - 30 \<le> j \<and> j < (i - 30) + 60 \<and> xs ! j = None)"
    by (simp only: those_None_iff None_in_window [OF b])
  also from True have "\<dots> \<longleftrightarrow> (\<exists>j \<in> {i - 30 .. i + 29}. xs ! j = None)"
    by auto
  finally show ?thesis using True by simp
qed

lemma clip_unit: "clip 0 1 a = None \<or> in_unit_interval (clip 0 1 a)"
  by (cases a) (simp_all add: clip_def in_unit_interval_def)

lemma artifact_confidence_range:
  assumes "i < length df"
  shows "artifact_confidence (detect_and_clean_artifacts df mt ! i) = None
       \<or> in_unit_interval (artifact_confidence (detect_and_clean_artifacts df mt ! i))"
  using assms
  by (cases "rolling_center 60 agg_mean (map vibration df) ! i")
    (simp_all add: dca_artifact_confidence clip_def in_unit_interval_def)

lemma artifact_confidence_None_iff:
  assumes "i < length df"
  shows "artifact_confidence (detect_and_clean_artifacts df mt ! i) = None \<longleftrightarrow>
         \<not> (30 \<le> i \<and> i + 29 < length df
            \<and> (\<forall>j \<in> {i - 30 .. i + 29}. vibration (df ! j) \<noteq> None))"
proof -
  have "artifact_confidence (detect_and_clean_artifacts df mt ! i) = None \<longleftrightarrow>
        rolling_center 60 agg_mean (map vibration df) ! i = None"
    using assms by (simp add: dca_artifact_confidence clip_def)
  also have "\<dots> \<longleftrightarrow> \<not> (30 \<le> i \<and> i + 29 < length df
            \<and> (\<forall>j \<in> {i - 30 .. i + 29}. map vibration df ! j \<noteq> None))"
    using assms by (simp add: rolling_mean_None_iff)
  also have "\<dots> \<longleftrightarrow> \<not> (30 \<le> i \<and> i + 29 < length df
            \<and> (\<forall>j \<in> {i - 30 .. i + 29}. vibration (df ! j) \<noteq> None))"
    by auto
  finally show ?thesis .
qed

lemma risk_score_col_range:
  "risk_score_col r = None \<or> in_unit_interval (risk_score_col r)"
  by (simp add: risk_score_col_def Let_def clip_unit)

lemma risk_score_col_None_iff:
  "risk_score_col r = None \<longleftrightarrow>
     heart_rate_mean r = None \<or> spo2_mean r = None \<or> bp_systolic_mean r = None"
  by (auto simp add: risk_score_col_def Let_def clip_def fadd_def hr_risk_def spo2_risk_def
      bp_risk_def split: option.splits)

lemma final_confidence_col_None_iff:
  "final_confidence_col r = None \<longleftrightarrow> confidence r = None \<or> heart_rate_var r = None"
  by (auto simp add: final_confidence_col_def sensor_stability_col_def clip_def fadd_def
      split: option.splits)

lemma final_confidence_col_range:
  assumes "confidence r = None \<or> in_unit_interval (confidence r)"
  shows "final_confidence_col r = None \<or> in_unit_interval (final_confidence_col r)"
proof (cases "confidence r")
  case None
  then show ?thesis by (simp add: final_confidence_col_def fadd_def)
next
  case (Some c)
  with assms have c: "0 \<le> c" "c \<le> 1" by (simp_all add: in_unit_interval_def)
  show ?thesis
  proof (cases "heart_rate_var r")
    case None
    then show ?thesis by (simp add: final_confidence_col_None_iff)
  next
    case (Some v)
    define s where "s = 1 - min (1 / 2) (max 0 (v / 100))"
    have s: "1 / 2 \<le> s" "s \<le> 1" by (simp_all add: s_def)
    have "final_confidence_col r = Some (c * 0.7 + s * 0.3)"
      using Some \<open>confidence r = Some c\<close>
      by (simp add: final_confidence_col_def sensor_stability_col_def clip_def fadd_def s_def)
    moreover from c s have "0 \<le> c * 0.7 + s * 0.3" "c * 0.7 + s * 0.3 \<le> 1" by simp_all
    ultimately show ?thesis by (simp add: in_unit_interval_def)
  qed
qed


lemma known_values_range:
  assumes "\<forall>a \<in> set v. a = None \<or> in_unit_interval a"
  shows "0 \<le> sum_list (known_values v) \<and> sum_list (known_values v) \<le> real (length (known_values v))"
  using assms
  by (induction v rule: known_values.induct) (auto simp add: in_unit_interval_def)

lemma pd_mean_range:
  assumes "\<forall>a \<in> set v. a = None \<or> in_unit_interval a"
  shows "pd_mean v = None \<or> in_unit_interval (pd_mean v)"
proof (cases "known_values v")
  case Nil
  then show ?thesis by (simp add: pd_mean_known)
next
  case (Cons x ks)
  then have "0 < real (length (known_values v))" by simp
  with known_values_range [OF assms] Cons show ?thesis
    by (simp add: pd_mean_known in_unit_interval_def del: of_nat_Suc)
qed

lemma window_row_confidence:
  "window_row w = Inr r \<Longrightarrow> confidence r = pd_mean (map artifact_confidence w)"
  by (auto simp add: window_row_def Let_def features.extend_def extract_features_def
      split: list.splits)

lemma window_rows_member:
  "window_rows df W starts = Inr rows \<Longrightarrow> r \<in> set rows \<Longrightarrow>
     \<exists>start. window_row (take W (drop start df)) = Inr r"
  by (induction starts arbitrary: rows) (auto split: sum.splits)

lemma detect_anomalies_confidence_range:
  assumes "\<forall>c \<in> set df. artifact_confidence c = None \<or> in_unit_interval (artifact_confidence c)"
    and "detect_anomalies df W S = Inr rows" and "r \<in> set rows"
  shows "confidence r = None \<or> in_unit_interval (confidence r)"
proof -
  from assms(2) obtain starts where "window_rows df W starts = Inr rows"
    by (auto simp add: detect_anomalies_def split: sum.splits)
  with assms(3) obtain start where "window_row (take W (drop start df)) = Inr r"
    by (blast dest: window_rows_member)
  then have c: "confidence r = pd_mean (map artifact_confidence (take W (drop start df)))"
    by (rule window_row_confidence)
  have "set (take W (drop start df)) \<subseteq> set df"
    by (meson set_take_subset set_drop_subset subset_trans)
  with assms(1) have "\<forall>a \<in> set (map artifact_confidence (take W (drop start df))).
      a = None \<or> in_unit_interval a"
    by auto
  then show ?thesis unfolding c by (rule pd_mean_range)
qed

lemma cleaned_confidence_range:
  "\<forall>c \<in> set (detect_and_clean_artifacts df mt).
     artifact_confidence c = None \<or> in_unit_interval (artifact_confidence c)"
proof
  fix c assume "c \<in> set (detect_and_clean_artifacts df mt)"
  then obtain i where "i < length df" "c = detect_and_clean_artifacts df mt ! i"
    by (auto simp add: in_set_conv_nth detect_and_clean_length)
  then show "artifact_confidence c = None \<or> in_unit_interval (artifact_confidence c)"
    using artifact_confidence_range by simp
qed

text \<open>
  Claim C4, as amended. Every artifact_confidence value of \<open>detect_and_clean_artifacts\<close>
  is NaN or lies in [0,1], and it is NaN exactly at the positions whose 60-sample centred
  window (positions \<open>i - 30 .. i + 29\<close>) leaves the stream or holds a NaN vibration. Every
  risk_score of \<open>calculate_risk_and_alerts\<close> is NaN or lies in [0,1], NaN exactly when
  one of the three means is. Every final_confidence is NaN exactly when the row's
  confidence or heart-rate variance is, and lies in [0,1] otherwise when the row's
  confidence does; on the rows that \<open>detect_anomalies\<close> builds from a cleaned stream it is
  always NaN or in [0,1].
\<close>

theorem scores_in_unit_interval_or_nan:
  "(\<forall>i < length df.
      (artifact_confidence (detect_and_clean_artifacts df mt ! i) = None
       \<or> in_unit_interval (artifact_confidence (detect_and_clean_artifacts df mt ! i)))
    \<and> (artifact_confidence (detect_and_clean_artifacts df mt ! i) = None \<longleftrightarrow>
         \<not> (30 \<le> i \<and> i + 29 < length df
            \<and> (\<forall>j \<in> {i - 30 .. i + 29}. vibration (df ! j) \<noteq> None))))
 \<and> (\<forall>i < length rs.
      (risk_score (calculate_risk_and_alerts fmt rs rt ct ! i) = None
       \<or> in_unit_interval (risk_score (calculate_risk_and_alerts fmt rs rt ct ! i)))
    \<and> (risk_score (calculate_risk_and_alerts fmt rs rt ct ! i) = None \<longleftrightarrow>
         heart_rate_mean (rs ! i) = None \<or> spo2_mean (rs ! i) = None
         \<or> bp_systolic_mean (rs ! i) = None)
    \<and> (final_confidence (calculate_risk_and_alerts fmt rs rt ct ! i) = None \<longleftrightarrow>
         confidence (rs ! i) = None \<or> heart_rate_var (rs ! i) = None)
    \<and> (in_unit_interval (confidence (rs ! i)) \<longrightarrow>
         final_confidence (calculate_risk_and_alerts fmt rs rt ct ! i) = None
         \<or> in_unit_interval (final_confidence (calculate_risk_and_alerts fmt rs rt ct ! i))))
 \<and> (\<forall>rows. detect_anomalies (detect_and_clean_artifacts df mt) W S = Inr rows \<longrightarrow>
      (\<forall>i < length rows.
         final_confidence (calculate_risk_and_alerts fmt rows rt ct ! i) = None
         \<or> in_unit_interval (final_confidence (calculate_risk_and_alerts fmt rows rt ct ! i))))"
proof (intro conjI allI impI)
  fix i assume "i < length df"
  then show "artifact_confidence (detect_and_clean_artifacts df mt ! i) = None
       \<or> in_unit_interval (artifact_confidence (detect_and_clean_artifacts df mt ! i))"
    by (rule artifact_confidence_range)
next
  fix i assume "i < length df"
  then show "artifact_confidence (detect_and_clean_artifacts df mt ! i) = None \<longleftrightarrow>
         \<not> (30 \<le> i \<and> i + 29 < length df
            \<and> (\<forall>j \<in> {i - 30 .. i + 29}. vibration (df ! j) \<noteq> None))"
    by (rule artifact_confidence_None_iff)
next
  fix i assume "i < length rs"
  then show "risk_score (calculate_risk_and_alerts fmt rs rt ct ! i) = None
       \<or> in_unit_interval (risk_score (calculate_risk_and_alerts fmt rs rt ct ! i))"
    using risk_score_col_range [of "rs ! i"] by (simp add: calculate_nth risk_record_fields)
next
  fix i assume "i < length rs"
  then show "risk_score (calculate_risk_and_alerts fmt rs rt ct ! i) = None \<longleftrightarrow>
         heart_rate_mean (rs ! i) = None \<or> spo2_mean (rs ! i) = None
         \<or> bp_systolic_mean (rs ! i) = None"
    by (simp only: calculate_nth risk_record_fields risk_score_col_None_iff)
next
  fix i assume "i < length rs"
  then show "final_confidence (calculate_risk_and_alerts fmt rs rt ct ! i) = None \<longleftrightarrow>
         confidence (rs ! i) = None \<or> heart_rate_var (rs ! i) = None"
    by (simp only: calculate_nth risk_record_fields final_confidence_col_None_iff)
next
  fix i assume "i < length rs" and "in_unit_interval (confidence (rs ! i))"
  then show "final_confidence (calculate_risk_and_alerts fmt rs rt ct ! i) = None
         \<or> in_unit_interval (final_confidence (calculate_risk_and_alerts fmt rs rt ct ! i))"
    using final_confidence_col_range [of "rs ! i"]
    by (simp add: calculate_nth risk_record_fields)
next
  fix rows i
  assume d: "detect_anomalies (detect_and_clean_artifacts df mt) W S = Inr rows"
    and i: "i < length rows"
  then have "confidence (rows ! i) = None \<or> in_unit_interval (confidence (rows ! i))"
    by (intro detect_anomalies_confidence_range [OF cleaned_confidence_range d]) simp
  then show "final_confidence (calculate_risk_and_alerts fmt rows rt ct ! i) = None
     \<or> in_unit_interval (final_confidence (calculate_risk_and_alerts fmt rows rt ct ! i))"
    using i final_confidence_col_range [of "rows ! i"]
    by (simp add: calculate_nth risk_record_fields)
qed

lemma steady_stream_confidence:
  "artifact_confidence (detect_and_clean_artifacts (replicate 60 steady_sample) 0.6 ! 30)
     = Some 1"
  by code_simp

lemma steady_stream_rows:
  "detect_anomalies (detect_and_clean_artifacts (replicate 3 steady_sample) 0.6) 2 1
     = Inr [steady_row]"
  by code_simp

theorem scores_in_unit_interval_or_nan_witness:
  "30 < length (replicate 60 steady_sample)
   \<and> artifact_confidence (detect_and_clean_artifacts (replicate 60 steady_sample) 0.6 ! 30)
       = Some 1
   \<and> in_unit_interval
       (artifact_confidence (detect_and_clean_artifacts (replicate 60 steady_sample) 0.6 ! 30))
   \<and> 0 < length [critical_window]
   \<and> in_unit_interval (confidence ([critical_window] ! 0))
   \<and> in_unit_interval
       (risk_score (calculate_risk_and_alerts (\<lambda>_. []) [critical_window] 0.6 0.7 ! 0))
   \<and> in_unit_interval
       (final_confidence (calculate_risk_and_alerts (\<lambda>_. []) [critical_window] 0.6 0.7 ! 0))
   \<and> detect_anomalies (detect_and_clean_artifacts (replicate 60 steady_sample) 0.6) 60 1
       = Inr []
   \<and> detect_anomalies (detect_and_clean_artifacts (replicate 3 steady_sample) 0.6) 2 1
       = Inr [steady_row]
   \<and> final_confidence (calculate_risk_and_alerts (\<lambda>_. []) [steady_row] 0.6 0.7 ! 0) = None"
proof -
  let ?df = "replicate 60 steady_sample"
  let ?rs = "[critical_window]"
  have l: "30 < length ?df" by simp
  have c: "in_unit_interval (confidence (?rs ! 0))"
    by (simp add: critical_window_def in_unit_interval_def)
  have hm: "heart_rate_mean (?rs ! 0) \<noteq> None" "spo2_mean (?rs ! 0) \<noteq> None"
    "bp_systolic_mean (?rs ! 0) \<noteq> None" "confidence (?rs ! 0) \<noteq> None"
    "heart_rate_var (?rs ! 0) \<noteq> None"
    by (simp_all add: critical_window_def)
  have d: "detect_anomalies (detect_and_clean_artifacts ?df 0.6) 60 1 = Inr []"
    by (simp add: detect_anomalies_def window_starts_def range0_def detect_and_clean_length)
  have f: "final_confidence (calculate_risk_and_alerts (\<lambda>_. []) [steady_row] 0.6 0.7 ! 0)
         = None"
    by (simp add: calculate_nth risk_record_fields final_confidence_col_None_iff
        steady_row_def)
  note T = scores_in_unit_interval_or_nan [of ?df "0.6" ?rs "\<lambda>_. []" "0.6" "0.7" 60 1]
  note T1 = T [THEN conjunct1, rule_format, OF l]
  have z: "0 < length ?rs" by simp
  note T2 = T [THEN conjunct2, THEN conjunct1, rule_format, OF z]
  from T1 steady_stream_confidence
  have a: "in_unit_interval (artifact_confidence (detect_and_clean_artifacts ?df 0.6 ! 30))"
    by simp
  from T2 [THEN conjunct2, THEN conjunct1] hm
  have rn: "risk_score (calculate_risk_and_alerts (\<lambda>_. []) ?rs 0.6 0.7 ! 0) \<noteq> None"
    by (simp del: not_None_eq)
  from T2 [THEN conjunct2, THEN conjunct2, THEN conjunct1] hm
  have fn: "final_confidence (calculate_risk_and_alerts (\<lambda>_. []) ?rs 0.6 0.7 ! 0) \<noteq> None"
    by (simp del: not_None_eq)
  from T2 [THEN conjunct1] rn have r: "in_unit_interval
       (risk_score (calculate_risk_and_alerts (\<lambda>_. []) ?rs 0.6 0.7 ! 0))"
    by (simp del: not_None_eq)
  from T2 [THEN conjunct2, THEN conjunct2, THEN conjunct2, rule_format, OF c] fn
  have fc: "in_unit_interval
       (final_confidence (calculate_risk_and_alerts (\<lambda>_. []) ?rs 0.6 0.7 ! 0))"
    by (simp del: not_None_eq)
  from l z a c r fc d f steady_stream_confidence steady_stream_rows
  show ?thesis by (intro conjI)
qed

text \<open>
  In a stream of 60 steady samples the confidence window of position 0 is incomplete,
  and the artifact_confidence there is NaN, which is not in [0,1].
\<close>

theorem artifact_confidence_edge_counterexample:
  "\<not> in_unit_interval
       (artifact_confidence (detect_and_clean_artifacts (replicate 60 steady_sample) 0.6 ! 0))"
proof -
  have "artifact_confidence (detect_and_clean_artifacts (replicate 60 steady_sample) 0.6 ! 0)
      = None"
    by (simp add: artifact_confidence_None_iff)
  then show ?thesis by (simp add: in_unit_interval_def)
qed

section \<open>A window without vibration\<close>

lemma those_all_Some:
  "\<forall>x \<in> set xs. x = Some c \<Longrightarrow> those xs = Some (replicate (length xs) c)"
  by (induction xs) simp_all

lemma window_elements:
  assumes "k + w \<le> length xs" and "x \<in> set (take w (drop k xs))"
  shows "\<exists>j. k \<le> j \<and> j < k + w \<and> x = xs ! j"
proof -
  from assms(2) obtain j where "j < length (take w (drop k xs))" "x = take w (drop k xs) ! j"
    by (auto simp add: in_set_conv_nth)
  with assms(1) have "j < w" "x = xs ! (k + j)" by simp_all
  then show ?thesis by (intro exI [of _ "k + j"]) simp
qed

lemma rolling_center_constant:
  assumes "w div 2 \<le> i" and "i + (w - 1) div 2 < length xs" and "0 < w"
    and "\<forall>j. i - w div 2 \<le> j \<and> j \<le> i + (w - 1) div 2 \<longrightarrow> xs ! j = Some c"
  shows "rolling_center w agg xs ! i = agg (replicate w c)"
proof -
  from assms(1-3) have b: "(i - w div 2) + w \<le> length xs" by linarith
  have "\<forall>x \<in> set (take w (drop (i - w div 2) xs)). x = Some c"
  proof
    fix x assume "x \<in> set (take w (drop (i - w div 2) xs))"
    with b obtain j where j: "i - w div 2 \<le> j" "j < (i - w div 2) + w" "x = xs ! j"
      by (blast dest: window_elements)
    from j(2) assms(1,3) have "j \<le> i + (w - 1) div 2" by linarith
    with j assms(4) show "x = Some c" by simp
  qed
  then have "those (take w (drop (i - w div 2) xs)) = Some (replicate w c)"
    using b by (simp add: those_all_Some)
  with assms(1,2) show ?thesis by (simp add: rolling_center_nth)
qed

lemma agg_mean_zero: "0 < n \<Longrightarrow> agg_mean (replicate n 0) = Some 0"
  by (cases n) (simp_all add: agg_mean_def sum_list_replicate)

lemma agg_max_zero: "0 < n \<Longrightarrow> agg_max (replicate n 0) = Some 0"
proof -
  have "fold max (replicate k (0::real)) 0 = 0" for k by (induction k) simp_all
  then show "0 < n \<Longrightarrow> agg_max (replicate n 0) = Some 0"
    by (cases n) (simp_all add: agg_max_def)
qed

lemma quiet_window_confidence:
  assumes "30 \<le> i" and "i + 29 < length df"
    and "\<forall>j \<in> {i - 30 .. i + 29}. vibration (df ! j) = Some 0"
  shows "artifact_confidence (detect_and_clean_artifacts df mt ! i) = Some 1"
proof -
  have "rolling_center 60 agg_mean (map vibration df) ! i = agg_mean (replicate 60 0)"
    using assms by (intro rolling_center_constant) simp_all
  then show ?thesis
    using assms(2) by (simp add: dca_artifact_confidence agg_mean_zero clip_def)
qed

lemma quiet_motion_risk:
  assumes "j < length df" and "0 \<le> mt"
    and "\<forall>k. j - 2 \<le> k \<and> k \<le> j + 2 \<and> k < length df \<longrightarrow> vibration (df ! k) = Some 0"
  shows "motion_risk (detect_and_clean_artifacts df mt ! j) = 0"
proof -
  let ?col = "map (\<lambda>s. Some (if fgt (vibration s) mt then 1 else 0 :: real)) df"
  have "fillna 0 (rolling_center 5 agg_max ?col) ! j = 0"
  proof (cases "2 \<le> j \<and> j + 2 < length df")
    case False
    with assms(1) have "rolling_center 5 agg_max ?col ! j = None"
      by (auto simp add: rolling_center_nth)
    with assms(1) show ?thesis
      by (simp add: fillna_def rolling_center_length)
  next
    case True
    have "rolling_center 5 agg_max ?col ! j = agg_max (replicate 5 0)"
    proof (rule rolling_center_constant)
      show "\<forall>k. j - 5 div 2 \<le> k \<and> k \<le> j + (5 - 1) div 2 \<longrightarrow> ?col ! k = Some 0"
      proof (intro allI impI)
        fix k assume "j - 5 div 2 \<le> k \<and> k \<le> j + (5 - 1) div 2"
        with True have k: "j - 2 \<le> k" "k \<le> j + 2" "k < length df" by simp_all
        with assms(3) have "vibration (df ! k) = Some 0" by simp
        with assms(2) k(3) show "?col ! k = Some 0" by (simp add: fgt_def)
      qed
    qed (use True in simp_all)
    with assms(1) show ?thesis
      by (simp add: fillna_def rolling_center_length agg_max_zero)
  qed
  with assms(1) show ?thesis by (simp add: dca_motion_risk)
qed

text \<open>
  Claim C9, as amended. When the vibration is 0 at all 60 positions \<open>i - 30 .. i + 29\<close>
  of the confidence window of position \<open>i\<close>, and the motion threshold is not negative
  (the default is 0.6), the artifact_confidence at position \<open>i\<close> is exactly 1, and no
  hr_artifact or spo2_artifact flag is set at the positions \<open>i - 28 .. i + 27\<close>, whatever
  the heart-rate and SpO2 deltas are. The other positions of the window have confidence
  windows and motion windows of their own, which reach outside it.
\<close>

theorem quiet_window:
  assumes "0 \<le> mt" and "30 \<le> i" and "i + 29 < length df"
    and "\<forall>j \<in> {i - 30 .. i + 29}. vibration (df ! j) = Some 0"
  shows "artifact_confidence (detect_and_clean_artifacts df mt ! i) = Some 1
       \<and> (\<forall>j \<in> {i - 28 .. i + 27}.
            \<not> hr_artifact (detect_and_clean_artifacts df mt ! j)
          \<and> \<not> spo2_artifact (detect_and_clean_artifacts df mt ! j))"
proof (intro conjI ballI)
  show "artifact_confidence (detect_and_clean_artifacts df mt ! i) = Some 1"
    using assms(2-4) by (rule quiet_window_confidence)
next
  fix j assume j: "j \<in> {i - 28 .. i + 27}"
  with assms(2,3) have l: "j < length df" by simp
  have "\<forall>k. j - 2 \<le> k \<and> k \<le> j + 2 \<and> k < length df \<longrightarrow> vibration (df ! k) = Some 0"
  proof (intro allI impI)
    fix k assume "j - 2 \<le> k \<and> k \<le> j + 2 \<and> k < length df"
    with j assms(2) have "k \<in> {i - 30 .. i + 29}" by auto
    with assms(4) show "vibration (df ! k) = Some 0" by simp
  qed
  with l assms(1) have m: "motion_risk (detect_and_clean_artifacts df mt ! j) = 0"
    by (rule quiet_motion_risk)
  from l m show "\<not> hr_artifact (detect_and_clean_artifacts df mt ! j)"
    by (simp add: dca_hr_artifact)
  from l m show "\<not> spo2_artifact (detect_and_clean_artifacts df mt ! j)"
    by (simp add: dca_spo2_artifact)
qed

lemma bump_stream_quiet: "map vibration (take 60 bump_stream) = replicate 60 (Some 0)"
  by code_simp

lemma bump_stream_delta: "diff_abs (map heart_rate bump_stream) ! 40 = Some 40"
  by code_simp

theorem quiet_window_witness:
  "(0::real) \<le> 0.6 \<and> (30::nat) \<le> 30 \<and> 30 + 29 < length bump_stream
   \<and> map vibration (take 60 bump_stream) = replicate 60 (Some 0)
   \<and> artifact_confidence (detect_and_clean_artifacts bump_stream 0.6 ! 30) = Some 1
   \<and> diff_abs (map heart_rate bump_stream) ! 40 = Some 40
   \<and> \<not> hr_artifact (detect_and_clean_artifacts bump_stream 0.6 ! 40)
   \<and> \<not> spo2_artifact (detect_and_clean_artifacts bump_stream 0.6 ! 40)
   \<and> \<not> hr_artifact (detect_and_clean_artifacts bump_stream 0.6 ! 57)"
proof -
  have t: "(0::real) \<le> 0.6" by simp
  have i: "(30::nat) \<le> 30" by simp
  have l: "30 + 29 < length bump_stream" by (simp add: bump_stream_def)
  have q: "\<forall>j \<in> {30 - 30 .. 30 + 29}. vibration (bump_stream ! j) = Some 0"
    by (simp add: bump_stream_def)
  have m: "(40::nat) \<in> {30 - 28 .. 30 + 27}" "(57::nat) \<in> {30 - 28 .. 30 + 27}"
    by simp_all
  from quiet_window [OF t i l q] m t i l bump_stream_quiet bump_stream_delta
  show ?thesis by blast
qed

lemma bump_stream_flag: "hr_artifact (detect_and_clean_artifacts bump_stream 0.6 ! 58)"
  by code_simp

lemma bump_stream_confidence:
  "artifact_confidence (detect_and_clean_artifacts bump_stream 0.6 ! 31) = Some (59 / 60)"
  by code_simp

text \<open>
  The first 60 samples of the stream have vibration 0: they are the confidence window of
  position 30. Position 58 lies in that window and its heart-rate jump is flagged, since
  its motion window reaches the bump at position 60; position 31 lies in it and its
  artifact_confidence is 59/60, since its own confidence window reaches the bump.
\<close>

theorem quiet_window_edges_counterexample:
  "map vibration (take 60 bump_stream) = replicate 60 (Some 0)
   \<and> hr_artifact (detect_and_clean_artifacts bump_stream 0.6 ! 58)
   \<and> artifact_confidence (detect_and_clean_artifacts bump_stream 0.6 ! 31) = Some (59 / 60)
   \<and> artifact_confidence (detect_and_clean_artifacts bump_stream 0.6 ! 31) \<noteq> Some 1"
  by (simp only: bump_stream_quiet bump_stream_flag bump_stream_confidence) simp

section \<open>Interpolation of unknown values\<close>

lemma interp_from_length: "length (interp_from limit st xs) = length xs"
  by (induction limit st xs rule: interp_from.induct) simp_all

lemma interp_from_step:
  "\<exists>y st'. interp_from limit st (x # xs) = y # interp_from limit st' xs"
proof (cases x)
  case None
  then show ?thesis by (cases st) auto
next
  case (Some y)
  then show ?thesis by auto
qed

lemma interp_from_keeps:
  "i < length xs \<Longrightarrow> xs ! i = Some y \<Longrightarrow> interp_from limit st xs ! i = Some y"
proof (induction xs arbitrary: st i)
  case Nil
  then show ?case by simp
next
  case (Cons x xs)
  show ?case
  proof (cases i)
    case 0
    with Cons.prems show ?thesis by simp
  next
    case (Suc n)
    obtain z st' where "interp_from limit st (x # xs) = z # interp_from limit st' xs"
      using interp_from_step by blast
    with Suc Cons show ?thesis by simp
  qed
qed

lemma interp_from_leading:
  "i < length xs \<Longrightarrow> \<forall>m \<le> i. xs ! m = None \<Longrightarrow> interp_from limit None xs ! i = None"
proof (induction xs arbitrary: i)
  case Nil
  then show ?case by simp
next
  case (Cons x xs)
  from Cons.prems(2) have x: "x = None" by auto
  show ?case
  proof (cases i)
    case 0
    with x show ?thesis by simp
  next
    case (Suc n)
    with Cons.prems have "n < length xs" "\<forall>m \<le> n. xs ! m = None" by auto
    with Cons.IH x Suc show ?thesis by simp
  qed
qed

text \<open>Inside a run of NaNs that starts in the state \<open>(y0, k)\<close>.\<close>

lemma interp_from_run:
  "i < length xs \<Longrightarrow> \<forall>m \<le> i. xs ! m = None \<Longrightarrow>
   interp_from limit (Some (y0, k)) xs ! i =
     (if k + i < limit
      then Some (case next_valid (drop (Suc i) xs) of
                   None \<Rightarrow> y0
                 | Some (d, y1) \<Rightarrow>
                     y0 + (y1 - y0) / real (Suc (k + i) + Suc d) * real (Suc (k + i)))
      else None)"
proof (induction xs arbitrary: i k)
  case Nil
  then show ?case by simp
next
  case (Cons x xs)
  from Cons.prems(2) have x: "x = None" by auto
  show ?case
  proof (cases i)
    case 0
    with x show ?thesis by (simp split: option.splits)
  next
    case (Suc n)
    with Cons.prems have "n < length xs" "\<forall>m \<le> n. xs ! m = None" by auto
    from Cons.IH [OF this, of "Suc k"] x Suc show ?thesis by (simp split: option.splits)
  qed
qed

lemma interp_from_after_valid:
  assumes "j < i" and "i < length xs" and "xs ! j = Some a"
    and "\<forall>m. j < m \<and> m \<le> i \<longrightarrow> xs ! m = None"
  shows "interp_from limit st xs ! i =
     (if i - j \<le> limit
      then Some (case next_valid (drop (Suc i) xs) of
                   None \<Rightarrow> a
                 | Some (d, b) \<Rightarrow> a + (b - a) / real (i - j + Suc d) * real (i - j))
      else None)"
  using assms
proof (induction xs arbitrary: st i j)
  case Nil
  then show ?case by simp
next
  case (Cons x xs)
  from Cons.prems(1) obtain n where i: "i = Suc n" by (cases i) auto
  show ?case
  proof (cases j)
    case 0
    with Cons.prems(3) have x: "x = Some a" by simp
    from Cons.prems i 0 have "n < length xs" "\<forall>m \<le> n. xs ! m = None" by auto
    from interp_from_run [OF this, of limit a 0] x i 0 show ?thesis
      by (simp add: Suc_le_eq split: option.splits)
  next
    case (Suc j')
    obtain z st' where s: "interp_from limit st (x # xs) = z # interp_from limit st' xs"
      using interp_from_step by blast
    from Cons.prems i Suc have "j' < n" "n < length xs" "xs ! j' = Some a"
      "\<forall>m. j' < m \<and> m \<le> n \<longrightarrow> xs ! m = None" by auto
    from Cons.IH [OF this, of st'] s i Suc show ?thesis by (simp split: option.splits)
  qed
qed

lemma next_valid_at:
  "d < length xs \<Longrightarrow> xs ! d = Some b \<Longrightarrow> \<forall>m < d. xs ! m = None \<Longrightarrow>
   next_valid xs = Some (d, b)"
proof (induction xs arbitrary: d)
  case Nil
  then show ?case by simp
next
  case (Cons x xs)
  show ?case
  proof (cases d)
    case 0
    with Cons.prems show ?thesis by simp
  next
    case (Suc n)
    with Cons.prems have "x = None" by auto
    moreover from Suc Cons.prems have "n < length xs" "xs ! n = Some b" "\<forall>m < n. xs ! m = None"
      by auto
    ultimately show ?thesis using Cons.IH Suc by simp
  qed
qed

lemma next_valid_none: "\<forall>x \<in> set xs. x = None \<Longrightarrow> next_valid xs = None"
  by (induction xs) simp_all


lemma interpolate_length: "length (interpolate limit xs) = length xs"
  by (simp add: interpolate_def interp_from_length)

lemma suppressed_length:
  "length (heart_rate_suppressed df mt) = length df"
  "length (spo2_suppressed df mt) = length df"
  by (simp_all add: heart_rate_suppressed_def spo2_suppressed_def hr_artifact_col_def
      spo2_artifact_col_def Let_def)

lemma cleaned_heart_rate:
  "map heart_rate (detect_and_clean_artifacts df mt)
     = interpolate 30 (heart_rate_suppressed df mt)"
  by (rule nth_equalityI)
    (simp_all add: detect_and_clean_artifacts_def Let_def sample.extend_def
      interpolate_length suppressed_length)

lemma cleaned_spo2:
  "map spo2 (detect_and_clean_artifacts df mt) = interpolate 30 (spo2_suppressed df mt)"
  by (rule nth_equalityI)
    (simp_all add: detect_and_clean_artifacts_def Let_def sample.extend_def
      interpolate_length suppressed_length)

lemma suppressed_flags:
  "i < length df \<Longrightarrow> heart_rate_suppressed df mt ! i =
     (if hr_artifact (detect_and_clean_artifacts df mt ! i) then None else heart_rate (df ! i))"
  "i < length df \<Longrightarrow> spo2_suppressed df mt ! i =
     (if spo2_artifact (detect_and_clean_artifacts df mt ! i) then None else spo2 (df ! i))"
  by (simp_all add: heart_rate_suppressed_def spo2_suppressed_def hr_artifact_col_def
      spo2_artifact_col_def detect_and_clean_artifacts_def Let_def sample.extend_def)

text \<open>What the interpolation does at a position, by the run of NaNs the position is in.\<close>

lemma interpolate_runs:
  assumes "i < length xs"
  shows "(xs ! i \<noteq> None \<longrightarrow> interpolate limit xs ! i = xs ! i)
       \<and> ((\<forall>m \<le> i. xs ! m = None) \<longrightarrow> interpolate limit xs ! i = None)
       \<and> (\<forall>j a. j < i \<and> xs ! j = Some a \<and> (\<forall>m. j < m \<and> m \<le> i \<longrightarrow> xs ! m = None) \<longrightarrow>
            (limit < i - j \<longrightarrow> interpolate limit xs ! i = None)
          \<and> (i - j \<le> limit \<longrightarrow>
               (\<forall>l b. i < l \<and> l < length xs \<and> xs ! l = Some b
                      \<and> (\<forall>m. i < m \<and> m < l \<longrightarrow> xs ! m = None) \<longrightarrow>
                  interpolate limit xs ! i
                    = Some (a + (b - a) / real (l - j) * real (i - j)))
             \<and> ((\<forall>m. i < m \<and> m < length xs \<longrightarrow> xs ! m = None) \<longrightarrow>
                  interpolate limit xs ! i = Some a)))"
proof (intro conjI allI impI)
  assume "xs ! i \<noteq> None"
  then obtain y where "xs ! i = Some y" by auto
  with assms show "interpolate limit xs ! i = xs ! i"
    by (simp add: interpolate_def interp_from_keeps)
next
  assume "\<forall>m \<le> i. xs ! m = None"
  with assms show "interpolate limit xs ! i = None"
    by (simp add: interpolate_def interp_from_leading)
next
  fix j a
  assume r: "j < i \<and> xs ! j = Some a \<and> (\<forall>m. j < m \<and> m \<le> i \<longrightarrow> xs ! m = None)"
  then have v: "interpolate limit xs ! i =
     (if i - j \<le> limit
      then Some (case next_valid (drop (Suc i) xs) of
                   None \<Rightarrow> a
                 | Some (d, b) \<Rightarrow> a + (b - a) / real (i - j + Suc d) * real (i - j))
      else None)"
    using assms unfolding interpolate_def by (intro interp_from_after_valid) simp_all
  {
    assume "limit < i - j"
    with v show "interpolate limit xs ! i = None" by simp
  }
  {
    fix l b
    assume le: "i - j \<le> limit"
      and l: "i < l \<and> l < length xs \<and> xs ! l = Some b
              \<and> (\<forall>m. i < m \<and> m < l \<longrightarrow> xs ! m = None)"
    let ?d = "l - Suc i"
    from l have "?d < length (drop (Suc i) xs)" "drop (Suc i) xs ! ?d = Some b"
      "\<forall>m < ?d. drop (Suc i) xs ! m = None"
      by auto
    then have "next_valid (drop (Suc i) xs) = Some (?d, b)" by (rule next_valid_at)
    moreover from l r have "i - j + Suc ?d = l - j" by linarith
    ultimately show "interpolate limit xs ! i
                    = Some (a + (b - a) / real (l - j) * real (i - j))"
      using v le by simp
  }
  {
    assume le: "i - j \<le> limit"
      and n: "\<forall>m. i < m \<and> m < length xs \<longrightarrow> xs ! m = None"
    have "\<forall>x \<in> set (drop (Suc i) xs). x = None"
    proof
      fix x assume "x \<in> set (drop (Suc i) xs)"
      then obtain m where "m < length (drop (Suc i) xs)" "x = drop (Suc i) xs ! m"
        by (auto simp add: in_set_conv_nth)
      with n show "x = None" by simp
    qed
    then have "next_valid (drop (Suc i) xs) = None" by (rule next_valid_none)
    with v le show "interpolate limit xs ! i = Some a" by simp
  }
qed


text \<open>
  Claim C7, as amended. Let \<open>xs\<close> be the heart-rate (or SpO2) column after the flagged
  values are replaced by NaN and \<open>ys\<close> the column \<open>detect_and_clean_artifacts\<close> returns.
  A known value is kept. A NaN with no known value before it stays NaN. In a run of NaNs
  that follows a known value \<open>a\<close> at position \<open>j\<close>, the first 30 positions are filled and
  the later ones stay NaN, however long the run is: a filled position \<open>i\<close> gets the value
  on the line from \<open>a\<close> to the next known value \<open>b\<close> at position \<open>l\<close>, or \<open>a\<close> itself when
  no known value follows.
\<close>

theorem interpolation_fills_first_thirty:
  assumes "(xs, ys) = (heart_rate_suppressed df mt,
                       map heart_rate (detect_and_clean_artifacts df mt))
         \<or> (xs, ys) = (spo2_suppressed df mt, map spo2 (detect_and_clean_artifacts df mt))"
    and "i < length df"
  shows "length xs = length df \<and> length ys = length df
       \<and> (xs ! i \<noteq> None \<longrightarrow> ys ! i = xs ! i)
       \<and> ((\<forall>m \<le> i. xs ! m = None) \<longrightarrow> ys ! i = None)
       \<and> (\<forall>j a. j < i \<and> xs ! j = Some a \<and> (\<forall>m. j < m \<and> m \<le> i \<longrightarrow> xs ! m = None) \<longrightarrow>
            (30 < i - j \<longrightarrow> ys ! i = None)
          \<and> (i - j \<le> 30 \<longrightarrow>
               (\<forall>l b. i < l \<and> l < length xs \<and> xs ! l = Some b
                      \<and> (\<forall>m. i < m \<and> m < l \<longrightarrow> xs ! m = None) \<longrightarrow>
                  ys ! i = Some (a + (b - a) / real (l - j) * real (i - j)))
             \<and> ((\<forall>m. i < m \<and> m < length xs \<longrightarrow> xs ! m = None) \<longrightarrow> ys ! i = Some a)))"
proof -
  from assms(1) have y: "ys = interpolate 30 xs" and l: "length xs = length df"
    by (auto simp add: cleaned_heart_rate cleaned_spo2 suppressed_length)
  from assms(2) l have "i < length xs" by simp
  from interpolate_runs [OF this, of 30] l show ?thesis
    unfolding y by (simp only: interpolate_length simp_thms)
qed

lemma gap_stream_suppressed:
  "heart_rate_suppressed gap_stream 0.6 = Some 80 # replicate 31 None @ [Some 112]"
  by code_simp

lemma gap_stream_filled:
  "heart_rate (detect_and_clean_artifacts gap_stream 0.6 ! 1) = Some 81"
  by code_simp

lemma gap_stream_raw: "map heart_rate (take 31 (drop 1 gap_stream)) = replicate 31 None"
  by code_simp

theorem interpolation_fills_first_thirty_witness:
  "heart_rate_suppressed gap_stream 0.6 = Some 80 # replicate 31 None @ [Some 112]
   \<and> map heart_rate (detect_and_clean_artifacts gap_stream 0.6) ! 0 = Some 80
   \<and> map heart_rate (detect_and_clean_artifacts gap_stream 0.6) ! 30 = Some 110
   \<and> map heart_rate (detect_and_clean_artifacts gap_stream 0.6) ! 31 = None"
proof -
  let ?xs = "heart_rate_suppressed gap_stream 0.6"
  let ?ys = "map heart_rate (detect_and_clean_artifacts gap_stream 0.6)"
  have p: "(?xs, ?ys) = (heart_rate_suppressed gap_stream 0.6,
                        map heart_rate (detect_and_clean_artifacts gap_stream 0.6))
         \<or> (?xs, ?ys) = (spo2_suppressed gap_stream 0.6,
                        map spo2 (detect_and_clean_artifacts gap_stream 0.6))"
    by simp
  have n: "length gap_stream = 33" by (simp add: gap_stream_def)
  have x0: "?xs ! 0 = Some 80" using gap_stream_suppressed by simp
  have x32: "?xs ! 32 = Some 112" using gap_stream_suppressed by (simp add: nth_append)
  have run: "?xs ! m = None" if "0 < m" "m < 32" for m
    using that gap_stream_suppressed by (simp add: nth_Cons' nth_append)
  have l: "length ?xs = 33" using gap_stream_suppressed by simp
  have i0: "0 < length gap_stream" and i30: "30 < length gap_stream"
    and i31: "31 < length gap_stream" by (simp_all add: n)
  from interpolation_fills_first_thirty [OF p i0] x0
  have a: "?ys ! 0 = Some 80" by simp
  from interpolation_fills_first_thirty [OF p i30]
  have "\<forall>j a. j < 30 \<and> ?xs ! j = Some a \<and> (\<forall>m. j < m \<and> m \<le> 30 \<longrightarrow> ?xs ! m = None) \<longrightarrow>
          (30 - j \<le> 30 \<longrightarrow>
             (\<forall>l b. 30 < l \<and> l < length ?xs \<and> ?xs ! l = Some b
                    \<and> (\<forall>m. 30 < m \<and> m < l \<longrightarrow> ?xs ! m = None) \<longrightarrow>
                ?ys ! 30 = Some (a + (b - a) / real (l - j) * real (30 - j))))"
    by blast
  from this [rule_format, of 0 80 32 112] x0 x32 run l
  have b: "?ys ! 30 = Some 110" by simp
  from interpolation_fills_first_thirty [OF p i31]
  have "\<forall>j a. j < 31 \<and> ?xs ! j = Some a \<and> (\<forall>m. j < m \<and> m \<le> 31 \<longrightarrow> ?xs ! m = None) \<longrightarrow>
          (30 < 31 - j \<longrightarrow> ?ys ! 31 = None)"
    by blast
  from this [rule_format, of 0 80] x0 run
  have c: "?ys ! 31 = None" by simp
  from a b c gap_stream_suppressed show ?thesis by simp
qed

text \<open>
  The heart rate of the stream is unknown at the 31 positions 1 to 31, a gap of more than
  30 samples, and the cleaned heart rate at position 1 is the interpolated number 81.
\<close>

theorem long_gap_counterexample:
  "map heart_rate (take 31 (drop 1 gap_stream)) = replicate 31 None
   \<and> heart_rate (detect_and_clean_artifacts gap_stream 0.6 ! 1) = Some 81"
  by (simp only: gap_stream_raw gap_stream_filled simp_thms)

end
